theory Spec2Isabelle
  imports Complex_Main
begin

section \<open>DD-Guard gateway: a shallow embedding of ddguard.py and sensor_codes.py\<close>

text \<open>
  The gateway reads a telemetry snapshot from the pump driver, corrects its timestamps
  by the reported clock drift, writes display values and colours to the Blynk pins,
  hands the snapshot to Nightscout and arms a timer for the next cycle.

  Conventions of the model:
  \<^item> Python \<open>int\<close> is \<open>int\<close>; the driver's floating-point amounts are \<open>real\<close>
    (the source only compares them with integer literals, rounds them and prints them);
  \<^item> a \<open>datetime\<close> is an \<open>int\<close>, the instant in microseconds; a \<open>timedelta\<close>
    is an \<open>int\<close> number of microseconds;
  \<^item> every call on a collaborator (driver, Blynk, Nightscout, syslog, timer) and every
    write of the in-progress guard is an \<open>effect\<close> of the trace that
    a cycle returns; \<open>print\<close> is left out of the trace;
  \<^item> an exception is a value: a fetch that raises, a Blynk call that raises, a timer
    that cannot start are inputs of the cycle, and what the source does then is a branch.
\<close>

subsection \<open>sensor\_codes.py\<close>

definition SENSOR_OK :: int where "SENSOR_OK = 0x0300"
definition SENSOR_OK_STR :: string where "SENSOR_OK_STR = ''Sensor OK''"
definition SENSOR_INIT :: int where "SENSOR_INIT = 0x0301"
definition SENSOR_INIT_STR :: string where "SENSOR_INIT_STR = ''Sensor warming up''"
definition SENSOR_CAL_NEEDED :: int where "SENSOR_CAL_NEEDED = 0x0302"
definition SENSOR_CAL_NEEDED_STR :: string where "SENSOR_CAL_NEEDED_STR = ''Calibrate sensor now ''"
definition SENSOR_ERROR :: int where "SENSOR_ERROR = 0x0303"
definition SENSOR_ERROR_STR :: string where "SENSOR_ERROR_STR = ''Updating sensor''"
definition SENSOR_CAL_ERROR :: int where "SENSOR_CAL_ERROR = 0x0304"
definition SENSOR_CAL_ERROR_STR :: string where "SENSOR_CAL_ERROR_STR = ''Calibration error''"
definition SENSOR_CHANGE_SENSOR :: int where "SENSOR_CHANGE_SENSOR = 0x0305"
definition SENSOR_CHANGE_SENSOR_STR :: string where "SENSOR_CHANGE_SENSOR_STR = ''Change sensor''"
definition SENSOR_END_OF_LIFE :: int where "SENSOR_END_OF_LIFE = 0x0306"
definition SENSOR_END_OF_LIFE_STR :: string where "SENSOR_END_OF_LIFE_STR = ''Sensor expired''"
definition SENSOR_NOT_READY :: int where "SENSOR_NOT_READY = 0x0307"
definition SENSOR_NOT_READY_STR :: string where "SENSOR_NOT_READY_STR = ''Sensor not ready''"
definition SENSOR_READING_HIGH :: int where "SENSOR_READING_HIGH = 0x0308"
definition SENSOR_READING_HIGH_STR :: string where "SENSOR_READING_HIGH_STR = ''Sensor reading too high''"
definition SENSOR_READING_LOW :: int where "SENSOR_READING_LOW = 0x0309"
definition SENSOR_READING_LOW_STR :: string where "SENSOR_READING_LOW_STR = ''Sensor reading too low''"
definition SENSOR_CAL_PENDING :: int where "SENSOR_CAL_PENDING = 0x030A"
definition SENSOR_CAL_PENDING_STR :: string where "SENSOR_CAL_PENDING_STR = ''Calibrating sensor''"
definition SENSOR_CHANGE_CAL_ERROR :: int where "SENSOR_CHANGE_CAL_ERROR = 0x030B"
definition SENSOR_CHANGE_CAL_ERROR_STR :: string where
  "SENSOR_CHANGE_CAL_ERROR_STR = ''Cal error - Change sensor''"
definition SENSOR_TIME_UNKNOWN :: int where "SENSOR_TIME_UNKNOWN = 0x030C"
definition SENSOR_TIME_UNKNOWN_STR :: string where "SENSOR_TIME_UNKNOWN_STR = ''Time unknown''"

text \<open>
  What ddguard.py uses and neither source file defines. The class \<open>SENSOR_EXCEPTIONS\<close>
  of sensor\_codes.py ends with \<open>SENSOR_TIME_UNKNOWN_STR\<close>: the attributes
  \<open>SENSOR_LOST\<close> and \<open>SENSOR_LOST_STR\<close>, read at ddguard.py lines 121 and 359, are
  parameters of the model. So are three library functions whose result depends on the
  platform: \<open>str\<close> of a float, \<open>strftime("%H:%M")\<close> and \<open>strftime("%s")\<close> of a
  datetime of the driver.
\<close>

record externals =
  SENSOR_LOST :: int
  SENSOR_LOST_STR :: string
  str_float :: "real \<Rightarrow> string"
  strftime_HM :: "int \<Rightarrow> string"
  strftime_s :: "int \<Rightarrow> int"

subsection \<open>ddguard.py: constants\<close>

definition UPDATE_INTERVAL :: int where "UPDATE_INTERVAL = 300"
definition RETRY_INTERVAL :: int where "RETRY_INTERVAL = 180"
definition RETRY_DELAY :: int where "RETRY_DELAY = 5"
definition MAX_RETRIES_AT_FAILURE :: nat where "MAX_RETRIES_AT_FAILURE = 3"

definition VPIN_SENSOR :: int where "VPIN_SENSOR = 1"
definition VPIN_BATTERY :: int where "VPIN_BATTERY = 2"
definition VPIN_UNITS :: int where "VPIN_UNITS = 3"
definition VPIN_ARROWS :: int where "VPIN_ARROWS = 4"
definition VPIN_STATUS :: int where "VPIN_STATUS = 5"
definition VPIN_ACTINS :: int where "VPIN_ACTINS = 6"
definition VPIN_LASTBOLUS :: int where "VPIN_LASTBOLUS = 7"

definition BLYNK_WHITE :: string where "BLYNK_WHITE = ''#F0F0F0''"
definition BLYNK_GREEN :: string where "BLYNK_GREEN = ''#23C48E''"
definition BLYNK_BLUE :: string where "BLYNK_BLUE = ''#04C0F8''"
definition BLYNK_YELLOW :: string where "BLYNK_YELLOW = ''#ED9D00''"
definition BLYNK_RED :: string where "BLYNK_RED = ''#D3435C''"
definition BLYNK_DARK_BLUE :: string where "BLYNK_DARK_BLUE = ''#5F7CD8''"

text \<open>
  The dict literal of lines 107-122. A later entry of a dict literal replaces an earlier
  one with the same key, as a later update of the map does; \<open>SENSOR_LOST\<close> is the last.
\<close>

definition sensor_exception_codes :: "externals \<Rightarrow> (int \<rightharpoonup> string)" where
  "sensor_exception_codes x =
     [SENSOR_OK \<mapsto> SENSOR_OK_STR,
      SENSOR_INIT \<mapsto> SENSOR_INIT_STR,
      SENSOR_CAL_NEEDED \<mapsto> SENSOR_CAL_NEEDED_STR,
      SENSOR_ERROR \<mapsto> SENSOR_ERROR_STR,
      SENSOR_CAL_ERROR \<mapsto> SENSOR_CAL_ERROR_STR,
      SENSOR_CHANGE_SENSOR \<mapsto> SENSOR_CHANGE_SENSOR_STR,
      SENSOR_END_OF_LIFE \<mapsto> SENSOR_END_OF_LIFE_STR,
      SENSOR_NOT_READY \<mapsto> SENSOR_NOT_READY_STR,
      SENSOR_READING_HIGH \<mapsto> SENSOR_READING_HIGH_STR,
      SENSOR_READING_LOW \<mapsto> SENSOR_READING_LOW_STR,
      SENSOR_CAL_PENDING \<mapsto> SENSOR_CAL_PENDING_STR,
      SENSOR_CHANGE_CAL_ERROR \<mapsto> SENSOR_CHANGE_CAL_ERROR_STR,
      SENSOR_TIME_UNKNOWN \<mapsto> SENSOR_TIME_UNKNOWN_STR,
      SENSOR_LOST x \<mapsto> SENSOR_LOST_STR x]"

subsection \<open>to\_int and read\_config\<close>

text \<open>
  Python 3's \<open>int(s)\<close> for a string of ASCII characters: white space is stripped on
  both sides, then an optional sign, then decimal digits, where single underscores may
  stand between digits. Anything else raises \<open>ValueError\<close>, which is \<open>None\<close> here.
\<close>

definition py_isspace :: "char \<Rightarrow> bool" where
  "py_isspace c \<longleftrightarrow>
     c \<in> {CHR '' '', CHR 0x09, CHR 0x0A, CHR 0x0B, CHR 0x0C, CHR 0x0D,
          CHR 0x1C, CHR 0x1D, CHR 0x1E, CHR 0x1F}"

definition py_strip :: "string \<Rightarrow> string" where
  "py_strip s = rev (dropWhile py_isspace (rev (dropWhile py_isspace s)))"

definition strip_chr :: "char \<Rightarrow> string \<Rightarrow> string" where
  "strip_chr q s = rev (dropWhile (\<lambda>c. c = q) (rev (dropWhile (\<lambda>c. c = q) s)))"

definition digit_of :: "char \<Rightarrow> int option" where
  "digit_of c = map_of (zip ''0123456789'' [0, 1, 2, 3, 4, 5, 6, 7, 8, 9]) c"

text \<open>The flag says whether the previous character was a digit.\<close>

fun py_digits :: "bool \<Rightarrow> int \<Rightarrow> string \<Rightarrow> int option" where
  "py_digits prev acc [] = (if prev then Some acc else None)"
| "py_digits prev acc (c # cs) =
     (if c = CHR ''_'' then (if prev then py_digits False acc cs else None)
      else (case digit_of c of
              None \<Rightarrow> None
            | Some d \<Rightarrow> py_digits True (10 * acc + d) cs))"

definition py_int :: "string \<Rightarrow> int option" where
  "py_int s =
     (case py_strip s of
        [] \<Rightarrow> None
      | c # cs \<Rightarrow>
          (if c = CHR ''+'' then py_digits False 0 cs
           else if c = CHR ''-'' then map_option uminus (py_digits False 0 cs)
           else py_digits False 0 (c # cs)))"

text \<open>Lines 135-140: the bare \<open>except\<close> turns every failure of \<open>int\<close> into 0.\<close>

definition to_int :: "string \<Rightarrow> int" where
  "to_int string = (case py_int string of Some i \<Rightarrow> i | None \<Rightarrow> 0)"

text \<open>
  The parsed configuration file: section and option name to the raw value.
  \<open>config.get\<close> raises \<open>NoSectionError\<close> or \<open>NoOptionError\<close> where the map is
  undefined. The handlers of \<open>read_config\<close> name \<open>ConfigParser.NoOptionError\<close>, which
  the class \<open>ConfigParser\<close> does not have: evaluating the \<open>except\<close> clause raises
  \<open>AttributeError\<close>, so a missing option leaves \<open>read_config\<close> with that exception.
\<close>

type_synonym config_file = "string \<Rightarrow> string \<Rightarrow> string option"

datatype error = AttributeError | RuntimeError

record read_config_attrs =
  blynk_server :: string
  blynk_token :: string
  blynk_heartbeat :: int
  nightscout_server :: string
  nightscout_api_secret :: string
  bgl_low_val :: int
  bgl_pre_low_val :: int
  bgl_pre_high_val :: int
  bgl_high_val :: int

text \<open>\<open>.split("#")[0].strip('"').strip("'")\<close>, the clean-up every option goes through.\<close>

definition unquote :: "string \<Rightarrow> string" where
  "unquote raw = strip_chr (CHR 0x27) (strip_chr (CHR 0x22) (takeWhile (\<lambda>c. c \<noteq> CHR ''#'') raw))"

definition read_config :: "config_file \<Rightarrow> error + read_config_attrs" where
  "read_config config =
     (case (config ''blynk'' ''server'', config ''blynk'' ''token'',
            config ''blynk'' ''heartbeat'') of
        (Some b_server, Some b_token, Some b_heartbeat) \<Rightarrow>
          (case (config ''nightscout'' ''server'', config ''nightscout'' ''api_secret'') of
             (Some n_server, Some n_secret) \<Rightarrow>
               (case (config ''bgl'' ''bgl_low'', config ''bgl'' ''bgl_pre_low'',
                      config ''bgl'' ''bgl_pre_high'', config ''bgl'' ''bgl_high'') of
                  (Some low, Some pre_low, Some pre_high, Some high) \<Rightarrow>
                    Inr \<lparr> blynk_server = py_strip (unquote b_server),
                          blynk_token = py_strip (unquote b_token),
                          blynk_heartbeat = to_int (unquote b_heartbeat),
                          nightscout_server = py_strip (unquote n_server),
                          nightscout_api_secret = py_strip (unquote n_secret),
                          bgl_low_val = to_int (unquote low),
                          bgl_pre_low_val = to_int (unquote pre_low),
                          bgl_pre_high_val =
                            (if to_int (unquote pre_high) = 0 then 1000
                             else to_int (unquote pre_high)),
                          bgl_high_val =
                            (if to_int (unquote high) = 0 then 1000
                             else to_int (unquote high)) \<rparr>
                | _ \<Rightarrow> Inl AttributeError)
           | _ \<Rightarrow> Inl AttributeError)
      | _ \<Rightarrow> Inl AttributeError)"

text \<open>Lines 404-405: an uploader exists when both of its options are non-empty.\<close>

definition blynk_enabled :: "read_config_attrs \<Rightarrow> bool" where
  "blynk_enabled cfg \<longleftrightarrow> blynk_token cfg \<noteq> '''' \<and> blynk_server cfg \<noteq> ''''"

definition nightscout_enabled :: "read_config_attrs \<Rightarrow> bool" where
  "nightscout_enabled cfg \<longleftrightarrow> nightscout_server cfg \<noteq> '''' \<and> nightscout_api_secret cfg \<noteq> ''''"

subsection \<open>The snapshot and the effects of a cycle\<close>

record pump_alert =
  alertSuspend :: bool
  alertSuspendLow :: bool
  alertOnLow :: bool
  alertOnHigh :: bool
  alertBeforeLow :: bool
  alertBeforeHigh :: bool

text \<open>
  The dict that \<open>cnl24driverlib.readLiveData\<close> returns, with the keys the gateway reads.
  \<open>trendArrow\<close> is the text that \<open>str\<close> gives for it.
\<close>

record liveData =
  sensorBGL :: int
  sensorBGLTimestamp :: int
  sensorCalMinutesRemaining :: int
  pumpTime :: int
  pumpTimeDrift :: int
  trendArrow :: string
  activeInsulin :: real
  lastBolusAmount :: real
  lastBolusTime :: int
  insulinUnitsRemaining :: real
  batteryLevelPercentage :: int
  sensorBatteryLevelPercentage :: int
  pumpAlert :: pump_alert

datatype pyval = PNone | PInt int | PFloat real | PStr string

datatype effect =
    Guard bool                        \<comment> \<open>\<open>upload_live_data.active = b\<close>\<close>
  | Fetch                             \<comment> \<open>\<open>cnl24driverlib.readLiveData()\<close>\<close>
  | Sleep int                         \<comment> \<open>\<open>time.sleep(n)\<close>\<close>
  | Syslog string                     \<comment> \<open>\<open>syslog.syslog(syslog.LOG_ERR, msg)\<close>\<close>
  | VirtualWrite int pyval            \<comment> \<open>\<open>blynk.virtual_write(pin, val)\<close>\<close>
  | SetProperty int string string     \<comment> \<open>\<open>blynk.set_property(pin, prop, val)\<close>\<close>
  | StoreLastBolusTime int            \<comment> \<open>assignment to the global \<open>lastBolusTime\<close>\<close>
  | NightscoutUpload "liveData option" \<comment> \<open>\<open>nightscout.upload(liveData)\<close>\<close>
  | TimerStart int                    \<comment> \<open>\<open>threading.Timer(n, upload_live_data).start()\<close>\<close>

text \<open>
  What a cycle reads from its environment: the outcome of the n-th call of the driver
  (counted from 0), the index of the Blynk call that raises (if any), whether the
  Nightscout upload raises, whether the timer fails to start, and the clock:
  \<open>datetime.now().strftime("%H:%M")\<close> at line 249, \<open>int(time.time())\<close> at line 308
  and \<open>datetime.now(tz)\<close> at line 380.
\<close>

datatype fetch_result = Raises | Returns "liveData option"

record cycle_env =
  readLiveData :: "nat \<Rightarrow> fetch_result"
  blynk_fail_at :: "nat option"
  nightscout_raises :: bool
  timer_raises :: bool
  now_HM :: string
  time_time :: int
  now_resched :: int

text \<open>The process-wide state: the globals of the module and the function attribute.\<close>

record state =
  active :: bool
  lastBolusTime_glob :: "int option"
  cycleCount :: nat
  cycleTimer :: "int option"

subsection \<open>blynk\_upload\<close>

text \<open>Python 3's \<open>int(round(x))\<close>: to the nearest integer, a tie to the even one.\<close>

definition py_round :: "real \<Rightarrow> int" where
  "py_round x =
     (let f = \<lfloor>x\<rfloor>; d = x - of_int f
      in if d < 1 / 2 then f else if 1 / 2 < d then f + 1
         else if even f then f else f + 1)"

text \<open>Lines 256-265: the colour of the gauge for a regular reading.\<close>

definition gauge_color :: "read_config_attrs \<Rightarrow> liveData \<Rightarrow> string" where
  "gauge_color cfg data =
     (if alertSuspend (pumpAlert data) \<or> alertSuspendLow (pumpAlert data) then BLYNK_BLUE
      else if sensorBGL data < bgl_low_val cfg \<or> sensorBGL data > bgl_high_val cfg \<or>
              alertOnLow (pumpAlert data) \<or> alertOnHigh (pumpAlert data) then BLYNK_RED
      else if sensorBGL data < bgl_pre_low_val cfg \<or> sensorBGL data > bgl_pre_high_val cfg \<or>
              alertBeforeLow (pumpAlert data) \<or> alertBeforeHigh (pumpAlert data)
           then BLYNK_YELLOW
      else BLYNK_GREEN)"

text \<open>Lines 238-273: gauge, trend and status line.\<close>

definition sensor_part ::
  "externals \<Rightarrow> read_config_attrs \<Rightarrow> cycle_env \<Rightarrow> liveData \<Rightarrow> effect list" where
  "sensor_part x cfg env data =
     (case sensor_exception_codes x (sensorBGL data) of
        Some code_str \<Rightarrow>
          [VirtualWrite VPIN_SENSOR PNone,
           SetProperty VPIN_SENSOR ''color'' BLYNK_WHITE,
           VirtualWrite VPIN_ARROWS
             (PStr (''--'' @ '' / '' @ str_float x (activeInsulin data))),
           VirtualWrite VPIN_STATUS (PStr (now_HM env @ '' - '' @ code_str)),
           SetProperty VPIN_STATUS ''color'' BLYNK_RED]
      | None \<Rightarrow>
          [VirtualWrite VPIN_SENSOR (PInt (sensorBGL data)),
           SetProperty VPIN_SENSOR ''color'' (gauge_color cfg data),
           VirtualWrite VPIN_ARROWS
             (PStr (trendArrow data @ '' / '' @ str_float x (activeInsulin data))),
           VirtualWrite VPIN_STATUS
             (PStr (''Updated '' @ strftime_HM x (sensorBGLTimestamp data) @ '' - '' @
                    ''Cal at '' @
                    strftime_HM x (sensorBGLTimestamp data +
                                   sensorCalMinutesRemaining data * 60000000))),
           SetProperty VPIN_STATUS ''color'' BLYNK_GREEN])"

text \<open>Lines 277-292: the battery bar alternates between pump and sensor battery.\<close>

definition battery_part :: "nat \<Rightarrow> liveData \<Rightarrow> effect list" where
  "battery_part count data =
     (let data_batt = (if count mod 2 = 0 then batteryLevelPercentage data
                       else sensorBatteryLevelPercentage data);
          label_batt = (if count mod 2 = 0 then ''PUMP BATTERY %''
                        else ''SENSOR BATTERY %'')
      in [SetProperty VPIN_BATTERY ''label'' label_batt,
          VirtualWrite VPIN_BATTERY (PInt data_batt),
          SetProperty VPIN_BATTERY ''color''
            (if data_batt \<le> 25 then BLYNK_RED
             else if data_batt \<le> 50 then BLYNK_YELLOW
             else BLYNK_GREEN)])"

text \<open>Lines 294-301: the reservoir bar.\<close>

definition reservoir_part :: "liveData \<Rightarrow> effect list" where
  "reservoir_part data =
     [VirtualWrite VPIN_UNITS (PInt (py_round (insulinUnitsRemaining data))),
      SetProperty VPIN_UNITS ''color''
        (if insulinUnitsRemaining data \<le> 25 then BLYNK_RED
         else if insulinUnitsRemaining data \<le> 75 then BLYNK_YELLOW
         else BLYNK_GREEN)]"

text \<open>
  Lines 303-312: active insulin or last bolus. The stored time is \<open>None\<close> until the
  first upload, and \<open>None\<close> differs from every integer.
\<close>

definition bolus_part ::
  "externals \<Rightarrow> cycle_env \<Rightarrow> int option \<Rightarrow> liveData \<Rightarrow> effect list" where
  "bolus_part x env stored data =
     (if Some (strftime_s x (lastBolusTime data)) \<noteq> stored then
        StoreLastBolusTime (strftime_s x (lastBolusTime data)) #
        (if time_time env - strftime_s x (lastBolusTime data) < 2 * UPDATE_INTERVAL
         then [VirtualWrite VPIN_LASTBOLUS (PFloat (lastBolusAmount data))]
         else [])
      else [VirtualWrite VPIN_ACTINS (PFloat (activeInsulin data))])"

text \<open>
  Lines 229-316: the effects of \<open>blynk_upload(data)\<close> in the order of the source, when no
  call raises. \<open>count\<close> and \<open>stored\<close> are the globals \<open>cycleCount\<close> and
  \<open>lastBolusTime\<close> at the call.
\<close>

definition blynk_upload ::
  "externals \<Rightarrow> read_config_attrs \<Rightarrow> cycle_env \<Rightarrow> nat \<Rightarrow> int option \<Rightarrow>
   liveData option \<Rightarrow> effect list" where
  "blynk_upload x cfg env count stored data_opt =
     (case data_opt of
        Some data \<Rightarrow>
          sensor_part x cfg env data @ battery_part count data @ reservoir_part data @
          bolus_part x env stored data
      | None \<Rightarrow>
          [Syslog ''Unable to get data from pump'',
           SetProperty VPIN_STATUS ''color'' BLYNK_RED])"

text \<open>What the app shows on a pin: the values written and the colours set, in order.\<close>

fun write_of :: "int \<Rightarrow> effect \<Rightarrow> pyval list" where
  "write_of p (VirtualWrite q v) = (if q = p then [v] else [])"
| "write_of p _ = []"

fun color_of :: "int \<Rightarrow> effect \<Rightarrow> string list" where
  "color_of p (SetProperty q k v) = (if q = p \<and> k = ''color'' then [v] else [])"
| "color_of p _ = []"

definition pin_writes :: "int \<Rightarrow> effect list \<Rightarrow> pyval list" where
  "pin_writes p effs = concat (map (write_of p) effs)"

definition pin_colors :: "int \<Rightarrow> effect list \<Rightarrow> string list" where
  "pin_colors p effs = concat (map (color_of p) effs)"

text \<open>The global \<open>lastBolusTime\<close> after a list of effects: the last value stored.\<close>

fun store_of :: "effect \<Rightarrow> int option \<Rightarrow> int option" where
  "store_of (StoreLastBolusTime t) old = Some t"
| "store_of _ old = old"

definition last_store :: "int option \<Rightarrow> effect list \<Rightarrow> int option" where
  "last_store old effs = fold store_of effs old"

subsection \<open>upload\_live\_data\<close>

text \<open>
  Lines 340-352: up to \<open>MAX_RETRIES_AT_FAILURE\<close> calls of the driver, the \<open>i\<close>-th call
  being the next one and \<open>n\<close> the retries left. The loop ends at the first call that
  returns; after a call that raises it logs, and sleeps when a retry is left.
\<close>

fun fetch_loop :: "(nat \<Rightarrow> fetch_result) \<Rightarrow> nat \<Rightarrow> nat \<Rightarrow> liveData option \<times> effect list" where
  "fetch_loop rd i 0 = (None, [])"
| "fetch_loop rd i (Suc n) =
     (case rd i of
        Returns d \<Rightarrow> (d, [Fetch])
      | Raises \<Rightarrow>
          (let (d, effs) = fetch_loop rd (Suc i) n
           in (d, [Fetch, Syslog ''Unexpected ERROR occured while reading live data''] @
                  (if n > 0 then [Sleep RETRY_DELAY] else []) @ effs)))"

text \<open>Lines 354-361: the correction of the pump's clock drift, on the fetched dict.\<close>

definition drift_correct :: "externals \<Rightarrow> liveData \<Rightarrow> liveData" where
  "drift_correct x d =
     d\<lparr> pumpTime := pumpTime d + pumpTimeDrift d,
        sensorBGLTimestamp :=
          (if sensorBGL d \<noteq> SENSOR_LOST x then sensorBGLTimestamp d + pumpTimeDrift d
           else sensorBGLTimestamp d) \<rparr>"

text \<open>
  The Blynk calls of an upload up to the one that raises: the effects performed, and
  whether the upload raised. Only calls on the \<open>blynk\<close> object can raise here.
\<close>

fun is_blynk_call :: "effect \<Rightarrow> bool" where
  "is_blynk_call (VirtualWrite p v) = True"
| "is_blynk_call (SetProperty p k v) = True"
| "is_blynk_call _ = False"

fun perform :: "nat option \<Rightarrow> effect list \<Rightarrow> effect list \<times> bool" where
  "perform k [] = ([], False)"
| "perform k (e # es) =
     (if is_blynk_call e then
        (if k = Some 0 then ([], True)
         else (let (done, raised) = perform (map_option (\<lambda>n. n - 1) k) es
               in (e # done, raised)))
      else (let (done, raised) = perform k es in (e # done, raised)))"

text \<open>\<open>int(td.total_seconds())\<close>: whole seconds of a timedelta, rounded towards zero.\<close>

definition trunc_seconds :: "int \<Rightarrow> int" where
  "trunc_seconds us = (if 0 \<le> us then us div 1000000 else - ((- us) div 1000000))"

text \<open>Lines 377-389: the first argument of \<open>threading.Timer\<close>.\<close>

definition timer_delay :: "liveData option \<Rightarrow> int \<Rightarrow> int" where
  "timer_delay data_opt now =
     (let tmoSeconds =
        (case data_opt of
           Some data \<Rightarrow>
             (let nextReading = sensorBGLTimestamp data + UPDATE_INTERVAL * 1000000;
                  tmo = trunc_seconds (nextReading - now)
              in if tmo < 0 then RETRY_INTERVAL else tmo)
         | None \<Rightarrow> RETRY_INTERVAL)
      in tmoSeconds + 10)"

text \<open>
  Lines 328-393. The result is the exception that leaves the function (if any), the
  state and the trace. No \<open>try\<close> encloses the timer: when it cannot start, the
  exception leaves the function after line 390, before the counter and the guard are
  written.
\<close>

definition upload_live_data ::
  "externals \<Rightarrow> read_config_attrs \<Rightarrow> cycle_env \<Rightarrow> state \<Rightarrow>
   error option \<times> state \<times> effect list" where
  "upload_live_data x cfg env s =
     (if active s then (None, s, [])
      else
        (let (fetched, fetch_effs) = fetch_loop (readLiveData env) 0 MAX_RETRIES_AT_FAILURE;
             liveData = map_option (drift_correct x) fetched;
             (blynk_done, blynk_raised) =
               (if blynk_enabled cfg
                then perform (blynk_fail_at env)
                       (blynk_upload x cfg env (cycleCount s) (lastBolusTime_glob s) liveData)
                else ([], False));
             blynk_effs = blynk_done @ (if blynk_raised then [Syslog ''Blynk upload ERROR''] else []);
             nightscout_effs =
               (if nightscout_enabled cfg
                then NightscoutUpload liveData #
                     (if nightscout_raises env then [Syslog ''Nightscout upload ERROR''] else [])
                else []);
             delay = timer_delay liveData (now_resched env);
             trace = [Guard True] @ fetch_effs @ blynk_effs @ nightscout_effs;
             s1 = s\<lparr> active := True,
                     lastBolusTime_glob := last_store (lastBolusTime_glob s) blynk_done,
                     cycleTimer := Some delay \<rparr>
         in if timer_raises env then (Some RuntimeError, s1, trace)
            else (None,
                  s1\<lparr> cycleCount := cycleCount s + 1, active := False \<rparr>,
                  trace @ [TimerStart delay, Guard False])))"

subsection \<open>The claims' vocabulary\<close>

text \<open>
  The thirteen sensor-exception codes that the specification enumerates, each with its
  display string of sensor\_codes.py: warming up, calibration needed, calibration error,
  sensor error, change sensor, end of life, not ready, reading too high, reading too
  low, calibration pending, change and calibration error, time unknown, sensor lost.
\<close>

definition exception_codes_13 :: "externals \<Rightarrow> (int \<times> string) list" where
  "exception_codes_13 x =
     [(SENSOR_INIT, SENSOR_INIT_STR),
      (SENSOR_CAL_NEEDED, SENSOR_CAL_NEEDED_STR),
      (SENSOR_CAL_ERROR, SENSOR_CAL_ERROR_STR),
      (SENSOR_ERROR, SENSOR_ERROR_STR),
      (SENSOR_CHANGE_SENSOR, SENSOR_CHANGE_SENSOR_STR),
      (SENSOR_END_OF_LIFE, SENSOR_END_OF_LIFE_STR),
      (SENSOR_NOT_READY, SENSOR_NOT_READY_STR),
      (SENSOR_READING_HIGH, SENSOR_READING_HIGH_STR),
      (SENSOR_READING_LOW, SENSOR_READING_LOW_STR),
      (SENSOR_CAL_PENDING, SENSOR_CAL_PENDING_STR),
      (SENSOR_CHANGE_CAL_ERROR, SENSOR_CHANGE_CAL_ERROR_STR),
      (SENSOR_TIME_UNKNOWN, SENSOR_TIME_UNKNOWN_STR),
      (SENSOR_LOST x, SENSOR_LOST_STR x)]"

text \<open>
  The severity tiers of the specification. The source has no such type: a tier is the
  colour that the upload sets on the gauge. White is the blanked gauge of a sensor
  fault, blue a suspended pump, red an alert, yellow a pre-alert, green normal.
\<close>

datatype severity = Normal | PreAlert | Alert | Suspended | SensorFault

definition tier_of_color :: "string \<Rightarrow> severity option" where
  "tier_of_color c =
     (if c = BLYNK_WHITE then Some SensorFault
      else if c = BLYNK_BLUE then Some Suspended
      else if c = BLYNK_RED then Some Alert
      else if c = BLYNK_YELLOW then Some PreAlert
      else if c = BLYNK_GREEN then Some Normal
      else None)"

definition displayed_severity :: "effect list \<Rightarrow> severity option" where
  "displayed_severity effs =
     (case pin_colors VPIN_SENSOR effs of [c] \<Rightarrow> tier_of_color c | _ \<Rightarrow> None)"

text \<open>
  The specification's rule list for a regular reading, first match wins:
  suspend flags, then out of range or on-flags, then pre-range or before-flags,
  otherwise normal.
\<close>

fun first_match :: "(bool \<times> 'a) list \<Rightarrow> 'a \<Rightarrow> 'a" where
  "first_match [] dflt = dflt"
| "first_match ((c, v) # rules) dflt = (if c then v else first_match rules dflt)"

definition severity_spec :: "read_config_attrs \<Rightarrow> liveData \<Rightarrow> severity" where
  "severity_spec cfg data =
     first_match
       [(alertSuspend (pumpAlert data) \<or> alertSuspendLow (pumpAlert data), Suspended),
        (sensorBGL data < bgl_low_val cfg \<or> bgl_high_val cfg < sensorBGL data \<or>
         alertOnLow (pumpAlert data) \<or> alertOnHigh (pumpAlert data), Alert),
        (sensorBGL data < bgl_pre_low_val cfg \<or> bgl_pre_high_val cfg < sensorBGL data \<or>
         alertBeforeLow (pumpAlert data) \<or> alertBeforeHigh (pumpAlert data), PreAlert)]
       Normal"

text \<open>
  The rescheduling rule in the specification's words: the delay is
  \<open>(nextWake - now) + 10\<close> seconds, replaced by \<open>RETRY_INTERVAL\<close> when it is
  negative; a cycle without data reschedules after \<open>RETRY_INTERVAL\<close>.
\<close>

definition delay_spec :: "liveData option \<Rightarrow> int \<Rightarrow> int" where
  "delay_spec data_opt now =
     (case data_opt of
        Some data \<Rightarrow>
          (let nextWake = sensorBGLTimestamp data + UPDATE_INTERVAL * 1000000;
               delay = trunc_seconds (nextWake - now) + 10
           in if delay < 0 then RETRY_INTERVAL else delay)
      | None \<Rightarrow> RETRY_INTERVAL)"

text \<open>The timers armed, the guard writes and the Nightscout uploads of a trace, in order.\<close>

fun timer_of :: "effect \<Rightarrow> int list" where
  "timer_of (TimerStart n) = [n]"
| "timer_of _ = []"

fun guard_of :: "effect \<Rightarrow> bool list" where
  "guard_of (Guard b) = [b]"
| "guard_of _ = []"

fun nightscout_of :: "effect \<Rightarrow> liveData option list" where
  "nightscout_of (NightscoutUpload d) = [d]"
| "nightscout_of _ = []"

definition timer_starts :: "effect list \<Rightarrow> int list" where
  "timer_starts effs = concat (map timer_of effs)"

definition guard_writes :: "effect list \<Rightarrow> bool list" where
  "guard_writes effs = concat (map guard_of effs)"

definition nightscout_uploads :: "effect list \<Rightarrow> liveData option list" where
  "nightscout_uploads effs = concat (map nightscout_of effs)"

text \<open>The three parts of what a cycle returns.\<close>

definition outcome_of :: "error option \<times> state \<times> effect list \<Rightarrow> error option" where
  "outcome_of r = fst r"

definition state_of :: "error option \<times> state \<times> effect list \<Rightarrow> state" where
  "state_of r = fst (snd r)"

definition trace_of :: "error option \<times> state \<times> effect list \<Rightarrow> effect list" where
  "trace_of r = snd (snd r)"

text \<open>The effects that an upload to Blynk can have.\<close>

fun upload_effect :: "effect \<Rightarrow> bool" where
  "upload_effect (VirtualWrite p v) = True"
| "upload_effect (SetProperty p k v) = True"
| "upload_effect (StoreLastBolusTime t) = True"
| "upload_effect (Syslog m) = True"
| "upload_effect _ = False"

text \<open>All nine options of the configuration file are present.\<close>

definition all_options_present :: "config_file \<Rightarrow> bool" where
  "all_options_present config \<longleftrightarrow>
     config ''blynk'' ''server'' \<noteq> None \<and> config ''blynk'' ''token'' \<noteq> None \<and>
     config ''blynk'' ''heartbeat'' \<noteq> None \<and>
     config ''nightscout'' ''server'' \<noteq> None \<and> config ''nightscout'' ''api_secret'' \<noteq> None \<and>
     config ''bgl'' ''bgl_low'' \<noteq> None \<and> config ''bgl'' ''bgl_pre_low'' \<noteq> None \<and>
     config ''bgl'' ''bgl_pre_high'' \<noteq> None \<and> config ''bgl'' ''bgl_high'' \<noteq> None"

text \<open>A configuration file with one option replaced.\<close>

definition set_option :: "config_file \<Rightarrow> string \<Rightarrow> string \<Rightarrow> string \<Rightarrow> config_file" where
  "set_option config sec opt v = (\<lambda>s k. if s = sec \<and> k = opt then Some v else config s k)"

subsection \<open>Example inputs\<close>

text \<open>
  A configuration file with both uploaders, the low bounds 70 and 80 and the given
  texts for the two high bounds; and the attributes read from such a file.
\<close>

definition ex_config :: "string \<Rightarrow> string \<Rightarrow> config_file" where
  "ex_config pre_hi hi sec opt =
     (if sec = ''blynk'' \<and> opt = ''server'' then Some ''blynk-cloud.com''
      else if sec = ''blynk'' \<and> opt = ''token'' then Some ''abcdef''
      else if sec = ''blynk'' \<and> opt = ''heartbeat'' then Some ''20''
      else if sec = ''nightscout'' \<and> opt = ''server'' then Some ''ns.example.org''
      else if sec = ''nightscout'' \<and> opt = ''api_secret'' then Some ''secret''
      else if sec = ''bgl'' \<and> opt = ''bgl_low'' then Some ''70''
      else if sec = ''bgl'' \<and> opt = ''bgl_pre_low'' then Some ''80''
      else if sec = ''bgl'' \<and> opt = ''bgl_pre_high'' then Some pre_hi
      else if sec = ''bgl'' \<and> opt = ''bgl_high'' then Some hi
      else None)"

definition ex_cfg :: "int \<Rightarrow> int \<Rightarrow> read_config_attrs" where
  "ex_cfg pre_hi hi =
     \<lparr> blynk_server = ''blynk-cloud.com'', blynk_token = ''abcdef'', blynk_heartbeat = 20,
       nightscout_server = ''ns.example.org'', nightscout_api_secret = ''secret'',
       bgl_low_val = 70, bgl_pre_low_val = 80, bgl_pre_high_val = pre_hi,
       bgl_high_val = hi \<rparr>"

text \<open>
  Externals for the examples: a code and a text for the lost sensor, and stand-ins for
  the three library functions.
\<close>

definition ex_ext :: externals where
  "ex_ext = \<lparr> SENSOR_LOST = 0x030D, SENSOR_LOST_STR = ''Sensor lost'',
             str_float = (\<lambda>r. ''1.5''), strftime_HM = (\<lambda>t. ''12:00''),
             strftime_s = (\<lambda>t. t div 1000000) \<rparr>"

definition ex_alert :: "bool \<Rightarrow> bool \<Rightarrow> pump_alert" where
  "ex_alert suspend on_high =
     \<lparr> alertSuspend = suspend, alertSuspendLow = False, alertOnLow = False,
       alertOnHigh = on_high, alertBeforeLow = False, alertBeforeHigh = False \<rparr>"

text \<open>
  A snapshot with the given reading and alert flags, taken by the pump's clock at
  second 1000 with a drift of 2 seconds, battery 60 and 25, reservoir 40, last bolus
  at second 900.
\<close>

definition ex_data :: "int \<Rightarrow> pump_alert \<Rightarrow> liveData" where
  "ex_data bgl alert =
     \<lparr> sensorBGL = bgl, sensorBGLTimestamp = 1000000000, sensorCalMinutesRemaining = 60,
       pumpTime = 1010000000, pumpTimeDrift = 2000000, trendArrow = ''UP'',
       activeInsulin = 3 / 2, lastBolusAmount = 2, lastBolusTime = 900000000,
       insulinUnitsRemaining = 40, batteryLevelPercentage = 60,
       sensorBatteryLevelPercentage = 25, pumpAlert = alert \<rparr>"

text \<open>
  An environment whose driver answers the first call with the given result and raises
  on every later call, and where no upload raises; the clock reads second \<open>now\<close>.
\<close>

definition ex_env :: "fetch_result \<Rightarrow> bool \<Rightarrow> int \<Rightarrow> cycle_env" where
  "ex_env first timer_fails now =
     \<lparr> readLiveData = (\<lambda>n. if n = 0 then first else Raises), blynk_fail_at = None,
       nightscout_raises = False, timer_raises = timer_fails, now_HM = ''12:05'',
       time_time = now, now_resched = now * 1000000 \<rparr>"

definition ex_state :: "bool \<Rightarrow> state" where
  "ex_state busy =
     \<lparr> active = busy, lastBolusTime_glob = None, cycleCount = 0, cycleTimer = None \<rparr>"

text \<open>
  A regular snapshot, a snapshot with the code of the lost sensor, and a cycle on the
  example inputs: first answer of the driver, whether the timer fails, the clock in
  seconds, and whether a cycle is already in progress.
\<close>

definition ex_snapshot :: liveData where
  "ex_snapshot = ex_data 105 (ex_alert False False)"

definition ex_lost :: liveData where
  "ex_lost = ex_data 0x030D (ex_alert False False)"

definition ex_cycle :: "fetch_result \<Rightarrow> bool \<Rightarrow> int \<Rightarrow> bool \<Rightarrow> error option \<times> state \<times> effect list" where
  "ex_cycle first timer_fails now busy =
     upload_live_data ex_ext (ex_cfg 180 250) (ex_env first timer_fails now) (ex_state busy)"

section \<open>Properties\<close>

subsection \<open>Unfolding rules\<close>

lemmas sensor_code_defs =
  SENSOR_OK_def SENSOR_INIT_def SENSOR_CAL_NEEDED_def SENSOR_ERROR_def SENSOR_CAL_ERROR_def
  SENSOR_CHANGE_SENSOR_def SENSOR_END_OF_LIFE_def SENSOR_NOT_READY_def
  SENSOR_READING_HIGH_def SENSOR_READING_LOW_def SENSOR_CAL_PENDING_def
  SENSOR_CHANGE_CAL_ERROR_def SENSOR_TIME_UNKNOWN_def

lemmas sensor_str_defs =
  SENSOR_OK_STR_def SENSOR_INIT_STR_def SENSOR_CAL_NEEDED_STR_def SENSOR_ERROR_STR_def
  SENSOR_CAL_ERROR_STR_def SENSOR_CHANGE_SENSOR_STR_def SENSOR_END_OF_LIFE_STR_def
  SENSOR_NOT_READY_STR_def SENSOR_READING_HIGH_STR_def SENSOR_READING_LOW_STR_def
  SENSOR_CAL_PENDING_STR_def SENSOR_CHANGE_CAL_ERROR_STR_def SENSOR_TIME_UNKNOWN_STR_def

lemmas vpin_defs =
  VPIN_SENSOR_def VPIN_BATTERY_def VPIN_UNITS_def VPIN_ARROWS_def VPIN_STATUS_def
  VPIN_ACTINS_def VPIN_LASTBOLUS_def

lemmas color_defs =
  BLYNK_WHITE_def BLYNK_GREEN_def BLYNK_BLUE_def BLYNK_YELLOW_def BLYNK_RED_def

lemmas upload_defs =
  blynk_upload_def sensor_part_def battery_part_def reservoir_part_def bolus_part_def
  pin_writes_def pin_colors_def Let_def

subsection \<open>The exception table\<close>

lemma table_lookup_13:
  assumes "distinct (map fst (exception_codes_13 x))"
    and "(code, code_str) \<in> set (exception_codes_13 x)"
  shows "sensor_exception_codes x code = Some code_str"
  using assms
  by (auto simp: exception_codes_13_def sensor_exception_codes_def sensor_code_defs)

lemma table_lookup_ok: "sensor_exception_codes x SENSOR_OK \<noteq> None"
  by (simp add: sensor_exception_codes_def sensor_code_defs)

lemma table_lookup_ok_str:
  "SENSOR_LOST x \<noteq> SENSOR_OK \<Longrightarrow> sensor_exception_codes x SENSOR_OK = Some SENSOR_OK_STR"
  by (simp add: sensor_exception_codes_def sensor_code_defs)

lemma ex_regular:
  "b < 768 \<Longrightarrow> sensor_exception_codes ex_ext (sensorBGL (ex_data b a)) = None"
  by (simp add: sensor_exception_codes_def ex_ext_def ex_data_def sensor_code_defs)

lemma table_lookup_none:
  assumes "code \<notin> set (map fst (exception_codes_13 x))" and "code \<noteq> SENSOR_OK"
  shows "sensor_exception_codes x code = None"
  using assms
  by (simp add: exception_codes_13_def sensor_exception_codes_def)

lemma ex_not_in_13:
  "b < 768 \<Longrightarrow> sensorBGL (ex_data b a) \<notin> set (map fst (exception_codes_13 ex_ext))"
  "b < 768 \<Longrightarrow> sensorBGL (ex_data b a) \<noteq> SENSOR_OK"
  by (simp_all add: exception_codes_13_def ex_ext_def ex_data_def sensor_code_defs)

subsection \<open>What an upload shows\<close>

lemma blynk_upload_exception:
  assumes "sensor_exception_codes x (sensorBGL data) = Some code_str"
  shows "pin_writes VPIN_SENSOR (blynk_upload x cfg env count stored (Some data)) = [PNone]"
    and "pin_colors VPIN_SENSOR (blynk_upload x cfg env count stored (Some data)) = [BLYNK_WHITE]"
    and "pin_writes VPIN_ARROWS (blynk_upload x cfg env count stored (Some data)) =
           [PStr (''--'' @ '' / '' @ str_float x (activeInsulin data))]"
    and "pin_writes VPIN_STATUS (blynk_upload x cfg env count stored (Some data)) =
           [PStr (now_HM env @ '' - '' @ code_str)]"
    and "pin_colors VPIN_STATUS (blynk_upload x cfg env count stored (Some data)) = [BLYNK_RED]"
  using assms by (simp_all add: upload_defs vpin_defs)

lemma blynk_upload_regular:
  assumes "sensor_exception_codes x (sensorBGL data) = None"
  shows "pin_writes VPIN_SENSOR (blynk_upload x cfg env count stored (Some data)) =
           [PInt (sensorBGL data)]"
    and "pin_colors VPIN_SENSOR (blynk_upload x cfg env count stored (Some data)) =
           [gauge_color cfg data]"
  using assms by (simp_all add: upload_defs vpin_defs)

lemma tier_of_color_simps:
  "tier_of_color BLYNK_WHITE = Some SensorFault"
  "tier_of_color BLYNK_BLUE = Some Suspended"
  "tier_of_color BLYNK_RED = Some Alert"
  "tier_of_color BLYNK_YELLOW = Some PreAlert"
  "tier_of_color BLYNK_GREEN = Some Normal"
  by (simp_all add: tier_of_color_def color_defs)

lemma gauge_color_spec:
  "tier_of_color (gauge_color cfg data) = Some (severity_spec cfg data)"
  by (simp add: gauge_color_def severity_spec_def tier_of_color_simps)

lemma blynk_upload_bars:
  "pin_colors VPIN_BATTERY (blynk_upload x cfg env count stored (Some data)) =
     [if (if count mod 2 = 0 then batteryLevelPercentage data
          else sensorBatteryLevelPercentage data) \<le> 25 then BLYNK_RED
      else if (if count mod 2 = 0 then batteryLevelPercentage data
               else sensorBatteryLevelPercentage data) \<le> 50 then BLYNK_YELLOW
      else BLYNK_GREEN]"
  "pin_colors VPIN_UNITS (blynk_upload x cfg env count stored (Some data)) =
     [if insulinUnitsRemaining data \<le> 25 then BLYNK_RED
      else if insulinUnitsRemaining data \<le> 75 then BLYNK_YELLOW
      else BLYNK_GREEN]"
  by (simp_all add: upload_defs vpin_defs split: option.split)

lemma blynk_upload_bolus:
  "pin_writes VPIN_LASTBOLUS (blynk_upload x cfg env count stored (Some data)) =
     pin_writes VPIN_LASTBOLUS (bolus_part x env stored data)"
  "pin_writes VPIN_ACTINS (blynk_upload x cfg env count stored (Some data)) =
     pin_writes VPIN_ACTINS (bolus_part x env stored data)"
  "last_store stored (blynk_upload x cfg env count stored (Some data)) =
     last_store stored (bolus_part x env stored data)"
  by (simp_all add: blynk_upload_def sensor_part_def battery_part_def reservoir_part_def
      pin_writes_def last_store_def Let_def vpin_defs split: option.split)

subsection \<open>What a cycle does\<close>

lemmas result_defs = outcome_of_def state_of_def trace_of_def

lemma views_append:
  "timer_starts (es @ fs) = timer_starts es @ timer_starts fs"
  "guard_writes (es @ fs) = guard_writes es @ guard_writes fs"
  "nightscout_uploads (es @ fs) = nightscout_uploads es @ nightscout_uploads fs"
  "pin_writes p (es @ fs) = pin_writes p es @ pin_writes p fs"
  by (simp_all add: timer_starts_def guard_writes_def nightscout_uploads_def pin_writes_def)

lemma views_Cons:
  "timer_starts (e # es) = timer_of e @ timer_starts es"
  "guard_writes (e # es) = guard_of e @ guard_writes es"
  "nightscout_uploads (e # es) = nightscout_of e @ nightscout_uploads es"
  "pin_writes p (e # es) = write_of p e @ pin_writes p es"
  by (simp_all add: timer_starts_def guard_writes_def nightscout_uploads_def pin_writes_def)

lemma views_Nil:
  "timer_starts [] = []" "guard_writes [] = []" "nightscout_uploads [] = []"
  "pin_writes p [] = []"
  by (simp_all add: timer_starts_def guard_writes_def nightscout_uploads_def pin_writes_def)

lemmas views_simps = views_append views_Cons views_Nil

lemma upload_effect_views:
  "\<forall>e \<in> set es. upload_effect e \<Longrightarrow>
   timer_starts es = [] \<and> guard_writes es = [] \<and> nightscout_uploads es = []"
proof (induction es)
  case Nil
  then show ?case by (simp add: views_simps)
next
  case (Cons e es)
  then show ?case by (cases e) (simp_all add: views_simps)
qed

lemma fetch_loop_upload_effect_free:
  "fetch_loop rd i n = (d, effs) \<Longrightarrow>
   timer_starts effs = [] \<and> guard_writes effs = [] \<and> nightscout_uploads effs = [] \<and>
   pin_writes p effs = []"
proof (induction n arbitrary: i d effs)
  case 0
  then show ?case by (simp add: views_simps)
next
  case (Suc n)
  show ?case
  proof (cases "rd i")
    case Raises
    obtain d' effs' where rec: "fetch_loop rd (Suc i) n = (d', effs')"
      by (cases "fetch_loop rd (Suc i) n")
    from Suc.IH [OF rec] Suc.prems Raises rec show ?thesis
      by (auto simp: views_simps)
  next
    case (Returns r)
    with Suc.prems show ?thesis by (auto simp: views_simps)
  qed
qed

lemma perform_subset: "perform k es = (performed, raised) \<Longrightarrow> set performed \<subseteq> set es"
proof (induction es arbitrary: k performed raised)
  case Nil
  then show ?case by simp
next
  case (Cons e es)
  show ?case
  proof (cases "is_blynk_call e \<and> k = Some 0")
    case True
    with Cons.prems show ?thesis by simp
  next
    case False
    define k' where "k' = (if is_blynk_call e then map_option (\<lambda>n. n - 1) k else k)"
    obtain performed' raised' where rec: "perform k' es = (performed', raised')"
      by (cases "perform k' es")
    from Cons.prems False rec have "performed = e # performed'"
      by (auto simp: k'_def split: if_splits)
    with Cons.IH [OF rec] show ?thesis by auto
  qed
qed

lemma blynk_upload_effects: "\<forall>e \<in> set (blynk_upload x cfg env count stored data). upload_effect e"
  by (cases data) (auto simp: blynk_upload_def sensor_part_def battery_part_def
      reservoir_part_def bolus_part_def Let_def split: option.splits)

lemma perform_blynk_upload_views:
  assumes "perform k (blynk_upload x cfg env count stored data) = (performed, raised)"
  shows "timer_starts performed = []" and "guard_writes performed = []" and "nightscout_uploads performed = []"
proof -
  have "\<forall>e \<in> set performed. upload_effect e"
    using perform_subset [OF assms] blynk_upload_effects [of x cfg env count stored data] by blast
  from upload_effect_views [OF this]
  show "timer_starts performed = []" and "guard_writes performed = []" and "nightscout_uploads performed = []"
    by simp_all
qed

lemma cycle_reentrant: "active s \<Longrightarrow> upload_live_data x cfg env s = (None, s, [])"
  by (simp add: upload_live_data_def)

lemma cycle_timer:
  assumes "\<not> active s"
  shows "timer_starts (trace_of (upload_live_data x cfg env s)) =
           (if timer_raises env then []
            else [timer_delay (map_option (drift_correct x)
                                 (fst (fetch_loop (readLiveData env) 0 MAX_RETRIES_AT_FAILURE)))
                    (now_resched env)])"
  using assms
  by (auto simp: upload_live_data_def trace_of_def Let_def perform_blynk_upload_views views_simps
      split: prod.splits dest: fetch_loop_upload_effect_free)

lemma cycle_guard:
  assumes "\<not> active s"
  shows "guard_writes (trace_of (upload_live_data x cfg env s)) =
           (if timer_raises env then [True] else [True, False])"
    and "trace_of (upload_live_data x cfg env s) \<noteq> []"
    and "hd (trace_of (upload_live_data x cfg env s)) = Guard True"
    and "active (state_of (upload_live_data x cfg env s)) = timer_raises env"
    and "outcome_of (upload_live_data x cfg env s) =
           (if timer_raises env then Some RuntimeError else None)"
    and "cycleCount (state_of (upload_live_data x cfg env s)) =
           (if timer_raises env then cycleCount s else cycleCount s + 1)"
  using assms
  by (auto simp: upload_live_data_def result_defs Let_def perform_blynk_upload_views views_simps
      split: prod.splits dest: fetch_loop_upload_effect_free)

lemma cycle_nightscout:
  assumes "\<not> active s"
  shows "nightscout_uploads (trace_of (upload_live_data x cfg env s)) =
           (if nightscout_enabled cfg
            then [map_option (drift_correct x)
                    (fst (fetch_loop (readLiveData env) 0 MAX_RETRIES_AT_FAILURE))]
            else [])"
  using assms
  by (auto simp: upload_live_data_def trace_of_def Let_def perform_blynk_upload_views views_simps
      split: prod.splits dest: fetch_loop_upload_effect_free)


lemma perform_None: "perform None es = (es, False)"
  by (induction es) simp_all

lemma fetch_first:
  "rd 0 = Returns r \<Longrightarrow> fetch_loop rd 0 MAX_RETRIES_AT_FAILURE = (r, [Fetch])"
  by (simp add: MAX_RETRIES_AT_FAILURE_def numeral_3_eq_3)

lemma fetch_all_raise:
  "rd 0 = Raises \<Longrightarrow> rd 1 = Raises \<Longrightarrow> rd 2 = Raises \<Longrightarrow>
   fst (fetch_loop rd 0 MAX_RETRIES_AT_FAILURE) = None"
  by (simp add: MAX_RETRIES_AT_FAILURE_def numeral_3_eq_3 numeral_2_eq_2 split: prod.splits)

lemma cycle_last:
  assumes "\<not> active s" and "\<not> timer_raises env"
  shows "last (trace_of (upload_live_data x cfg env s)) = Guard False"
  using assms
  by (auto simp: upload_live_data_def trace_of_def Let_def split: prod.splits)

lemma cycle_blynk:
  assumes "\<not> active s" and "blynk_enabled cfg" and "blynk_fail_at env = None"
  shows "pin_writes p (trace_of (upload_live_data x cfg env s)) =
           pin_writes p
             (blynk_upload x cfg env (cycleCount s) (lastBolusTime_glob s)
                (map_option (drift_correct x)
                   (fst (fetch_loop (readLiveData env) 0 MAX_RETRIES_AT_FAILURE))))"
  using assms
  by (auto simp: upload_live_data_def trace_of_def Let_def perform_None views_simps
      split: prod.splits dest: fetch_loop_upload_effect_free [where p = p])

lemma ex_idle: "\<not> active (ex_state False)" and ex_busy: "active (ex_state True)"
  by (simp_all add: ex_state_def)

lemma ex_timer: "timer_raises (ex_env r t now) = t"
  by (simp add: ex_env_def)

lemma ex_fetch:
  "fst (fetch_loop (readLiveData (ex_env (Returns r) t now)) 0 MAX_RETRIES_AT_FAILURE) = r"
  by (simp add: fetch_first ex_env_def)

lemma ex_fetch_fails: "readLiveData (ex_env Raises t now) n = Raises"
  by (simp add: ex_env_def)

lemma ex_fetch_none:
  "fst (fetch_loop (readLiveData (ex_env Raises t now)) 0 MAX_RETRIES_AT_FAILURE) = None"
  by (simp add: fetch_all_raise ex_fetch_fails)

lemma ex_uploaders: "blynk_enabled (ex_cfg ph h)" "nightscout_enabled (ex_cfg ph h)"
  by (simp_all add: blynk_enabled_def nightscout_enabled_def ex_cfg_def)

lemma ex_clock: "now_resched (ex_env r t now) = now * 1000000"
  by (simp add: ex_env_def)

lemma ex_corrected:
  "sensorBGLTimestamp (drift_correct ex_ext ex_snapshot) = 1002000000"
  "pumpTime (drift_correct ex_ext ex_snapshot) = 1012000000"
  "sensorBGLTimestamp (drift_correct ex_ext ex_lost) = 1000000000"
  "pumpTime (drift_correct ex_ext ex_lost) = 1012000000"
  by (simp_all add: drift_correct_def ex_snapshot_def ex_lost_def ex_data_def ex_ext_def)

subsection \<open>The configuration\<close>

lemma read_config_bgl:
  assumes "read_config config = Inr cfg"
  shows "config ''bgl'' ''bgl_high'' = Some hi \<Longrightarrow>
           bgl_high_val cfg = (if to_int (unquote hi) = 0 then 1000 else to_int (unquote hi))"
    and "config ''bgl'' ''bgl_pre_high'' = Some ph \<Longrightarrow>
           bgl_pre_high_val cfg = (if to_int (unquote ph) = 0 then 1000 else to_int (unquote ph))"
  using assms by (auto simp: read_config_def split: option.splits)

lemma read_config_present:
  assumes "all_options_present config"
  shows "\<exists>cfg. read_config config = Inr cfg"
  using assms by (auto simp: read_config_def all_options_present_def)

lemma py_int_0: "py_int ''0'' = Some 0"
  by (simp add: py_int_def py_strip_def py_isspace_def digit_of_def)

lemma unquote_0: "unquote ''0'' = ''0''"
  by (simp add: unquote_def strip_chr_def)

lemma gauge_red:
  "gauge_color cfg data = BLYNK_RED \<Longrightarrow>
   sensorBGL data < bgl_low_val cfg \<or> bgl_high_val cfg < sensorBGL data \<or>
   alertOnLow (pumpAlert data) \<or> alertOnHigh (pumpAlert data)"
  by (auto simp: gauge_color_def color_defs split: if_splits)

lemma gauge_yellow:
  "gauge_color cfg data = BLYNK_YELLOW \<Longrightarrow>
   sensorBGL data < bgl_pre_low_val cfg \<or> bgl_pre_high_val cfg < sensorBGL data \<or>
   alertBeforeLow (pumpAlert data) \<or> alertBeforeHigh (pumpAlert data)"
  by (auto simp: gauge_color_def color_defs split: if_splits)

lemma ex_read_config_zero: "read_config (ex_config ''0'' ''0'') = Inr (ex_cfg 1000 1000)"
  by (simp add: read_config_def ex_config_def ex_cfg_def unquote_def strip_chr_def
      to_int_def py_int_def py_strip_def py_isspace_def digit_of_def)

lemma ex_read_config_malformed:
  "read_config (ex_config ''180'' ''abc'') = Inr (ex_cfg 180 1000)"
  by (simp add: read_config_def ex_config_def ex_cfg_def unquote_def strip_chr_def
      to_int_def py_int_def py_strip_def py_isspace_def digit_of_def)

text \<open>
  A high bound configured as zero is read as 1000: up to the reading 1000 the
  comparison with it is false, and the gauge is red (or yellow, for the pre-high
  bound) only on account of the low bound or of an alert flag.
\<close>

lemma zero_high_bound_up_to_1000:
  assumes "read_config config = Inr cfg"
  shows "(config ''bgl'' ''bgl_high'' = Some raw_high \<and> to_int (unquote raw_high) = 0 \<longrightarrow>
            bgl_high_val cfg = 1000 \<and>
            (sensorBGL data \<le> 1000 \<longrightarrow>
               \<not> bgl_high_val cfg < sensorBGL data \<and>
               (gauge_color cfg data = BLYNK_RED \<longrightarrow>
                  sensorBGL data < bgl_low_val cfg \<or>
                  alertOnLow (pumpAlert data) \<or> alertOnHigh (pumpAlert data)))) \<and>
         (config ''bgl'' ''bgl_pre_high'' = Some raw_pre_high \<and>
          to_int (unquote raw_pre_high) = 0 \<longrightarrow>
            bgl_pre_high_val cfg = 1000 \<and>
            (sensorBGL data \<le> 1000 \<longrightarrow>
               \<not> bgl_pre_high_val cfg < sensorBGL data \<and>
               (gauge_color cfg data = BLYNK_YELLOW \<longrightarrow>
                  sensorBGL data < bgl_pre_low_val cfg \<or>
                  alertBeforeLow (pumpAlert data) \<or> alertBeforeHigh (pumpAlert data))))"
  using read_config_bgl(1) [OF assms, of raw_high] read_config_bgl(2) [OF assms, of raw_pre_high]
    gauge_red [of cfg data] gauge_yellow [of cfg data]
  by auto

section \<open>The claims\<close>

subsection \<open>C1: a sensor-exception reading\<close>

text \<open>
  Claim C1. For every snapshot whose reading is one of the thirteen enumerated
  sensor-exception codes, whatever its alert flags, the upload shows a sensor fault
  (the gauge is blanked and white, the status line is red), the status text is the
  time of the upload, \<open>" - "\<close> and the display string of that code, and the trend
  display is the placeholder \<open>"--"\<close> with the active insulin. The code of the lost
  sensor, which the sources leave open, is taken to differ from the twelve others.
\<close>

theorem exception_reading_shows_sensor_fault:
  assumes "distinct (map fst (exception_codes_13 x))"
    and "(code, code_str) \<in> set (exception_codes_13 x)"
    and "sensorBGL data = code"
  shows "displayed_severity (blynk_upload x cfg env count stored (Some data)) = Some SensorFault \<and>
         pin_colors VPIN_STATUS (blynk_upload x cfg env count stored (Some data)) = [BLYNK_RED] \<and>
         pin_writes VPIN_STATUS (blynk_upload x cfg env count stored (Some data)) =
           [PStr (now_HM env @ '' - '' @ code_str)] \<and>
         pin_writes VPIN_ARROWS (blynk_upload x cfg env count stored (Some data)) =
           [PStr (''--'' @ '' / '' @ str_float x (activeInsulin data))] \<and>
         pin_writes VPIN_SENSOR (blynk_upload x cfg env count stored (Some data)) = [PNone]"
proof -
  have look: "sensor_exception_codes x (sensorBGL data) = Some code_str"
    using assms by (simp add: table_lookup_13)
  show ?thesis
    by (simp add: displayed_severity_def blynk_upload_exception [OF look] tier_of_color_simps)
qed

text \<open>
  The reading "calibration needed" with the suspend and the on-high flag set: the
  display is the sensor fault all the same.
\<close>

theorem exception_reading_shows_sensor_fault_witness:
  "distinct (map fst (exception_codes_13 ex_ext)) \<and>
   (SENSOR_CAL_NEEDED, SENSOR_CAL_NEEDED_STR) \<in> set (exception_codes_13 ex_ext) \<and>
   sensorBGL (ex_data 0x0302 (ex_alert True True)) = SENSOR_CAL_NEEDED \<and>
   displayed_severity
     (blynk_upload ex_ext (ex_cfg 180 250) (ex_env Raises False 1300) 0 None
        (Some (ex_data 0x0302 (ex_alert True True)))) = Some SensorFault \<and>
   pin_writes VPIN_STATUS
     (blynk_upload ex_ext (ex_cfg 180 250) (ex_env Raises False 1300) 0 None
        (Some (ex_data 0x0302 (ex_alert True True)))) =
     [PStr ''12:05 - Calibrate sensor now ''] \<and>
   pin_writes VPIN_ARROWS
     (blynk_upload ex_ext (ex_cfg 180 250) (ex_env Raises False 1300) 0 None
        (Some (ex_data 0x0302 (ex_alert True True)))) =
     [PStr ''-- / 1.5'']"
proof -
  have d: "distinct (map fst (exception_codes_13 ex_ext))"
    by (simp add: exception_codes_13_def ex_ext_def sensor_code_defs)
  have m: "(SENSOR_CAL_NEEDED, SENSOR_CAL_NEEDED_STR) \<in> set (exception_codes_13 ex_ext)"
    by (simp add: exception_codes_13_def)
  have r: "sensorBGL (ex_data 0x0302 (ex_alert True True)) = SENSOR_CAL_NEEDED"
    by (simp add: ex_data_def SENSOR_CAL_NEEDED_def)
  show ?thesis
    using exception_reading_shows_sensor_fault
            [OF d m r, of "ex_cfg 180 250" "ex_env Raises False 1300" 0 None] d m r
    by (simp add: ex_env_def ex_ext_def SENSOR_CAL_NEEDED_STR_def)
qed

subsection \<open>C3: the tier of a regular reading\<close>

text \<open>
  Claim C3, amended. For every snapshot whose reading is none of the thirteen
  sensor-exception codes and is not \<open>SENSOR_OK\<close> (0x0300) either, that is, for every
  reading that is no key of the uploader's table, the tier that the gauge shows is the
  one that the specification's ordered rule list gives, first match wins: a suspend
  flag gives suspended; else a reading below the low bound or above the high bound, or
  an on-low or on-high flag, gives alert; else a reading below the pre-low bound or
  above the pre-high bound, or a before-low or before-high flag, gives pre-alert; else
  normal.
\<close>

theorem regular_reading_severity_precedence:
  assumes "sensorBGL data \<notin> set (map fst (exception_codes_13 x))"
    and "sensorBGL data \<noteq> SENSOR_OK"
  shows "displayed_severity (blynk_upload x cfg env count stored (Some data)) =
           Some (severity_spec cfg data)"
proof -
  have look: "sensor_exception_codes x (sensorBGL data) = None"
    using assms by (rule table_lookup_none)
  show ?thesis
    by (simp add: displayed_severity_def blynk_upload_regular [OF look] gauge_color_spec)
qed

text \<open>
  With the bounds 70, 80, 180 and 250: reading 300 with suspend and on-high set is
  suspended, 200 with on-high is alert, 200 without flags is pre-alert, 105 is normal.
\<close>

theorem regular_reading_severity_precedence_witness:
  "sensorBGL (ex_data 300 (ex_alert True True)) \<notin> set (map fst (exception_codes_13 ex_ext)) \<and>
   sensorBGL (ex_data 300 (ex_alert True True)) \<noteq> SENSOR_OK \<and>
   displayed_severity
     (blynk_upload ex_ext (ex_cfg 180 250) (ex_env Raises False 1300) 0 None
        (Some (ex_data 300 (ex_alert True True)))) = Some Suspended \<and>
   displayed_severity
     (blynk_upload ex_ext (ex_cfg 180 250) (ex_env Raises False 1300) 0 None
        (Some (ex_data 200 (ex_alert False True)))) = Some Alert \<and>
   displayed_severity
     (blynk_upload ex_ext (ex_cfg 180 250) (ex_env Raises False 1300) 0 None
        (Some (ex_data 200 (ex_alert False False)))) = Some PreAlert \<and>
   displayed_severity
     (blynk_upload ex_ext (ex_cfg 180 250) (ex_env Raises False 1300) 0 None
        (Some (ex_data 105 (ex_alert False False)))) = Some Normal"
proof -
  have a300: "sensorBGL (ex_data 300 a) \<notin> set (map fst (exception_codes_13 ex_ext))"
    and b300: "sensorBGL (ex_data 300 a) \<noteq> SENSOR_OK" for a
    using ex_not_in_13 [of 300 a] by simp_all
  have a200: "sensorBGL (ex_data 200 a) \<notin> set (map fst (exception_codes_13 ex_ext))"
    and b200: "sensorBGL (ex_data 200 a) \<noteq> SENSOR_OK" for a
    using ex_not_in_13 [of 200 a] by simp_all
  have a105: "sensorBGL (ex_data 105 a) \<notin> set (map fst (exception_codes_13 ex_ext))"
    and b105: "sensorBGL (ex_data 105 a) \<noteq> SENSOR_OK" for a
    using ex_not_in_13 [of 105 a] by simp_all
  have s300: "severity_spec (ex_cfg 180 250) (ex_data 300 (ex_alert True True)) = Suspended"
    and s200h: "severity_spec (ex_cfg 180 250) (ex_data 200 (ex_alert False True)) = Alert"
    and s200: "severity_spec (ex_cfg 180 250) (ex_data 200 (ex_alert False False)) = PreAlert"
    and s105: "severity_spec (ex_cfg 180 250) (ex_data 105 (ex_alert False False)) = Normal"
    by (simp_all add: severity_spec_def ex_data_def ex_alert_def ex_cfg_def)
  show ?thesis
    using regular_reading_severity_precedence [OF a300 [of "ex_alert True True"] b300 [of "ex_alert True True"],
          where cfg = "ex_cfg 180 250" and env = "ex_env Raises False 1300"
            and count = 0 and stored = None]
      regular_reading_severity_precedence [OF a200 [of "ex_alert False True"] b200 [of "ex_alert False True"],
          where cfg = "ex_cfg 180 250" and env = "ex_env Raises False 1300"
            and count = 0 and stored = None]
      regular_reading_severity_precedence [OF a200 [of "ex_alert False False"] b200 [of "ex_alert False False"],
          where cfg = "ex_cfg 180 250" and env = "ex_env Raises False 1300"
            and count = 0 and stored = None]
      regular_reading_severity_precedence [OF a105 [of "ex_alert False False"] b105 [of "ex_alert False False"],
          where cfg = "ex_cfg 180 250" and env = "ex_env Raises False 1300"
            and count = 0 and stored = None]
      a300 [of "ex_alert True True"] b300 [of "ex_alert True True"]
    unfolding s300 s200h s200 s105 by blast
qed

text \<open>
  The claim as stated fails at the reading \<open>SENSOR_OK\<close>. It is none of the thirteen
  exception codes, so the claim's rule list applies to it and gives alert (0x0300 is
  768, above the high bound 250); the uploader has the code in its table (line 108)
  and shows a sensor fault.
\<close>

theorem sensor_ok_reading_counterexample:
  "sensorBGL (ex_data 0x0300 (ex_alert False False)) \<notin>
     set (map fst (exception_codes_13 ex_ext)) \<and>
   displayed_severity
     (blynk_upload ex_ext (ex_cfg 180 250) (ex_env Raises False 1300) 0 None
        (Some (ex_data 0x0300 (ex_alert False False)))) = Some SensorFault \<and>
   severity_spec (ex_cfg 180 250) (ex_data 0x0300 (ex_alert False False)) = Alert"
proof -
  have notin: "sensorBGL (ex_data 0x0300 (ex_alert False False)) \<notin>
     set (map fst (exception_codes_13 ex_ext))"
    by (simp add: exception_codes_13_def ex_ext_def ex_data_def sensor_code_defs)
  have look: "sensor_exception_codes ex_ext (sensorBGL (ex_data 0x0300 (ex_alert False False))) =
      Some SENSOR_OK_STR"
    by (simp add: sensor_exception_codes_def ex_ext_def ex_data_def sensor_code_defs)
  have shown: "displayed_severity
     (blynk_upload ex_ext (ex_cfg 180 250) (ex_env Raises False 1300) 0 None
        (Some (ex_data 0x0300 (ex_alert False False)))) = Some SensorFault"
    by (simp add: displayed_severity_def blynk_upload_exception [OF look] tier_of_color_simps)
  have spec: "severity_spec (ex_cfg 180 250) (ex_data 0x0300 (ex_alert False False)) = Alert"
    by (simp add: severity_spec_def ex_data_def ex_alert_def ex_cfg_def)
  show ?thesis
    using notin shown spec by blast
qed

subsection \<open>C6: bolus-change detection\<close>

text \<open>
  Claim C6. The upload compares the snapshot's last-bolus time in whole seconds with
  the stored value, which is unset at first. If they differ, the stored value becomes
  the new time, the last-bolus amount is written if and only if
  \<open>now - newBolusTime < 2 * UPDATE_INTERVAL\<close>, and no active-insulin update is
  written, so a stale bolus writes neither. If they are equal, the stored value stays
  and the active-insulin update is written instead of the bolus amount.
\<close>

theorem bolus_change_detection:
  "(Some (strftime_s x (lastBolusTime data)) \<noteq> stored \<longrightarrow>
      last_store stored (blynk_upload x cfg env count stored (Some data)) =
        Some (strftime_s x (lastBolusTime data)) \<and>
      pin_writes VPIN_LASTBOLUS (blynk_upload x cfg env count stored (Some data)) =
        (if time_time env - strftime_s x (lastBolusTime data) < 2 * UPDATE_INTERVAL
         then [PFloat (lastBolusAmount data)] else []) \<and>
      pin_writes VPIN_ACTINS (blynk_upload x cfg env count stored (Some data)) = []) \<and>
   (Some (strftime_s x (lastBolusTime data)) = stored \<longrightarrow>
      last_store stored (blynk_upload x cfg env count stored (Some data)) = stored \<and>
      pin_writes VPIN_ACTINS (blynk_upload x cfg env count stored (Some data)) =
        [PFloat (activeInsulin data)] \<and>
      pin_writes VPIN_LASTBOLUS (blynk_upload x cfg env count stored (Some data)) = [])"
  unfolding blynk_upload_bolus
  by (simp add: bolus_part_def pin_writes_def last_store_def vpin_defs)

text \<open>
  Last bolus at second 900 and nothing stored: at second 1300 the amount 2 is written,
  at second 1500 nothing is. With 900 stored the active insulin 1.5 is written.
\<close>

theorem bolus_change_detection_witness:
  "Some (strftime_s ex_ext (lastBolusTime (ex_data 105 (ex_alert False False)))) \<noteq> None \<and>
   last_store None
     (blynk_upload ex_ext (ex_cfg 180 250) (ex_env Raises False 1300) 0 None
        (Some (ex_data 105 (ex_alert False False)))) = Some 900 \<and>
   pin_writes VPIN_LASTBOLUS
     (blynk_upload ex_ext (ex_cfg 180 250) (ex_env Raises False 1300) 0 None
        (Some (ex_data 105 (ex_alert False False)))) = [PFloat 2] \<and>
   pin_writes VPIN_LASTBOLUS
     (blynk_upload ex_ext (ex_cfg 180 250) (ex_env Raises False 1500) 0 None
        (Some (ex_data 105 (ex_alert False False)))) = [] \<and>
   pin_writes VPIN_ACTINS
     (blynk_upload ex_ext (ex_cfg 180 250) (ex_env Raises False 1500) 0 None
        (Some (ex_data 105 (ex_alert False False)))) = [] \<and>
   Some (strftime_s ex_ext (lastBolusTime (ex_data 105 (ex_alert False False)))) = Some 900 \<and>
   pin_writes VPIN_ACTINS
     (blynk_upload ex_ext (ex_cfg 180 250) (ex_env Raises False 1300) 0 (Some 900)
        (Some (ex_data 105 (ex_alert False False)))) = [PFloat (3 / 2)] \<and>
   pin_writes VPIN_LASTBOLUS
     (blynk_upload ex_ext (ex_cfg 180 250) (ex_env Raises False 1300) 0 (Some 900)
        (Some (ex_data 105 (ex_alert False False)))) = []"
  using bolus_change_detection [of ex_ext "ex_data 105 (ex_alert False False)" None "ex_cfg 180 250"
              "ex_env Raises False 1300" 0]
    bolus_change_detection [of ex_ext "ex_data 105 (ex_alert False False)" None "ex_cfg 180 250"
              "ex_env Raises False 1500" 0]
    bolus_change_detection [of ex_ext "ex_data 105 (ex_alert False False)" "Some 900" "ex_cfg 180 250"
              "ex_env Raises False 1300" 0]
  by (simp add: ex_data_def ex_ext_def ex_env_def UPDATE_INTERVAL_def)

subsection \<open>C8: battery and reservoir bands\<close>

text \<open>
  Claim C8. For every battery value \<open>v\<close> (the pump's on an even cycle count, the
  sensor's on an odd one) the battery bar is red (critical) when \<open>v \<le> 25\<close>, yellow
  (warning) when \<open>25 < v \<le> 50\<close> and green (normal) otherwise; for every reservoir
  value the bar is red up to 25, yellow up to 75 and green above. The boundary
  values 25, 50 and 75 are in the lower, more severe band. This holds for a regular
  reading and for a sensor exception alike.
\<close>

theorem battery_and_reservoir_bands:
  "(let v = (if count mod 2 = 0 then batteryLevelPercentage data
             else sensorBatteryLevelPercentage data);
        shown = pin_colors VPIN_BATTERY (blynk_upload x cfg env count stored (Some data))
    in (v \<le> 25 \<longrightarrow> shown = [BLYNK_RED]) \<and>
       (25 < v \<and> v \<le> 50 \<longrightarrow> shown = [BLYNK_YELLOW]) \<and>
       (50 < v \<longrightarrow> shown = [BLYNK_GREEN])) \<and>
   (let r = insulinUnitsRemaining data;
        shown = pin_colors VPIN_UNITS (blynk_upload x cfg env count stored (Some data))
    in (r \<le> 25 \<longrightarrow> shown = [BLYNK_RED]) \<and>
       (25 < r \<and> r \<le> 75 \<longrightarrow> shown = [BLYNK_YELLOW]) \<and>
       (75 < r \<longrightarrow> shown = [BLYNK_GREEN]))"
  by (simp add: blynk_upload_bars Let_def)

text \<open>
  Battery 60 is green, 25 red and 50 yellow; reservoir 75 is yellow, 25 red, 76 green.
\<close>

theorem battery_and_reservoir_bands_witness:
  "pin_colors VPIN_BATTERY
     (blynk_upload ex_ext (ex_cfg 180 250) (ex_env Raises False 1300) 0 None
        (Some (ex_data 105 (ex_alert False False)))) = [BLYNK_GREEN] \<and>
   pin_colors VPIN_BATTERY
     (blynk_upload ex_ext (ex_cfg 180 250) (ex_env Raises False 1300) 1 None
        (Some (ex_data 105 (ex_alert False False)))) = [BLYNK_RED] \<and>
   pin_colors VPIN_BATTERY
     (blynk_upload ex_ext (ex_cfg 180 250) (ex_env Raises False 1300) 0 None
        (Some ((ex_data 105 (ex_alert False False))
                 \<lparr>batteryLevelPercentage := 50, insulinUnitsRemaining := 75\<rparr>))) =
     [BLYNK_YELLOW] \<and>
   pin_colors VPIN_UNITS
     (blynk_upload ex_ext (ex_cfg 180 250) (ex_env Raises False 1300) 0 None
        (Some ((ex_data 105 (ex_alert False False))
                 \<lparr>batteryLevelPercentage := 50, insulinUnitsRemaining := 75\<rparr>))) =
     [BLYNK_YELLOW] \<and>
   pin_colors VPIN_UNITS
     (blynk_upload ex_ext (ex_cfg 180 250) (ex_env Raises False 1300) 0 None
        (Some ((ex_data 105 (ex_alert False False))
                 \<lparr>insulinUnitsRemaining := 25\<rparr>))) = [BLYNK_RED] \<and>
   pin_colors VPIN_UNITS
     (blynk_upload ex_ext (ex_cfg 180 250) (ex_env Raises False 1300) 0 None
        (Some ((ex_data 105 (ex_alert False False))
                 \<lparr>insulinUnitsRemaining := 76\<rparr>))) = [BLYNK_GREEN]"
  using battery_and_reservoir_bands [of 0 "ex_data 105 (ex_alert False False)" ex_ext "ex_cfg 180 250"
              "ex_env Raises False 1300" None]
    battery_and_reservoir_bands [of 1 "ex_data 105 (ex_alert False False)" ex_ext "ex_cfg 180 250"
              "ex_env Raises False 1300" None]
    battery_and_reservoir_bands [of 0 "(ex_data 105 (ex_alert False False))
                 \<lparr>batteryLevelPercentage := 50, insulinUnitsRemaining := 75\<rparr>"
              ex_ext "ex_cfg 180 250" "ex_env Raises False 1300" None]
    battery_and_reservoir_bands [of 0 "(ex_data 105 (ex_alert False False))\<lparr>insulinUnitsRemaining := 25\<rparr>"
              ex_ext "ex_cfg 180 250" "ex_env Raises False 1300" None]
    battery_and_reservoir_bands [of 0 "(ex_data 105 (ex_alert False False))\<lparr>insulinUnitsRemaining := 76\<rparr>"
              ex_ext "ex_cfg 180 250" "ex_env Raises False 1300" None]
  by (simp add: ex_data_def Let_def)

subsection \<open>C9: the code SENSOR\_OK\<close>

text \<open>
  Claim C9. The lookup table of the uploader has the code \<open>SENSOR_OK\<close> (0x0300,
  "Sensor OK"), which is none of the thirteen codes of the specification. So every
  snapshot whose reading is \<open>SENSOR_OK\<close> takes the sensor-fault branch: the
  gauge is blanked and white and the status line is red, with the text "Sensor OK".
\<close>

theorem sensor_ok_is_in_exception_table:
  "SENSOR_OK = 0x0300 \<and> SENSOR_OK_STR = ''Sensor OK'' \<and>
   sensor_exception_codes x SENSOR_OK \<noteq> None \<and>
   (SENSOR_LOST x \<noteq> SENSOR_OK \<longrightarrow> SENSOR_OK \<notin> fst ` set (exception_codes_13 x)) \<and>
   (sensorBGL data = SENSOR_OK \<longrightarrow>
      displayed_severity (blynk_upload x cfg env count stored (Some data)) = Some SensorFault \<and>
      pin_writes VPIN_SENSOR (blynk_upload x cfg env count stored (Some data)) = [PNone] \<and>
      pin_colors VPIN_SENSOR (blynk_upload x cfg env count stored (Some data)) = [BLYNK_WHITE] \<and>
      pin_colors VPIN_STATUS (blynk_upload x cfg env count stored (Some data)) = [BLYNK_RED] \<and>
      (SENSOR_LOST x \<noteq> SENSOR_OK \<longrightarrow>
         pin_writes VPIN_STATUS (blynk_upload x cfg env count stored (Some data)) =
           [PStr (now_HM env @ '' - '' @ SENSOR_OK_STR)]))"
proof -
  have notin: "SENSOR_LOST x \<noteq> SENSOR_OK \<longrightarrow> SENSOR_OK \<notin> fst ` set (exception_codes_13 x)"
    by (auto simp: exception_codes_13_def sensor_code_defs)
  have shown: "displayed_severity (blynk_upload x cfg env count stored (Some data)) = Some SensorFault \<and>
      pin_writes VPIN_SENSOR (blynk_upload x cfg env count stored (Some data)) = [PNone] \<and>
      pin_colors VPIN_SENSOR (blynk_upload x cfg env count stored (Some data)) = [BLYNK_WHITE] \<and>
      pin_colors VPIN_STATUS (blynk_upload x cfg env count stored (Some data)) = [BLYNK_RED]"
    if ok: "sensorBGL data = SENSOR_OK"
  proof -
    obtain code_str where look: "sensor_exception_codes x (sensorBGL data) = Some code_str"
      using table_lookup_ok [of x] ok by auto
    show ?thesis
      by (simp add: displayed_severity_def blynk_upload_exception [OF look] tier_of_color_simps)
  qed
  have status: "pin_writes VPIN_STATUS (blynk_upload x cfg env count stored (Some data)) =
           [PStr (now_HM env @ '' - '' @ SENSOR_OK_STR)]"
    if ok: "sensorBGL data = SENSOR_OK" and lost: "SENSOR_LOST x \<noteq> SENSOR_OK"
  proof -
    have look: "sensor_exception_codes x (sensorBGL data) = Some SENSOR_OK_STR"
      using table_lookup_ok_str [OF lost] ok by simp
    show ?thesis by (simp add: blynk_upload_exception [OF look])
  qed
  show ?thesis
    using notin shown status table_lookup_ok [of x]
    by (simp add: SENSOR_OK_def SENSOR_OK_STR_def)
qed

text \<open>The reading 0x0300 without any alert flag.\<close>

theorem sensor_ok_is_in_exception_table_witness:
  "SENSOR_LOST ex_ext \<noteq> SENSOR_OK \<and>
   SENSOR_OK \<notin> fst ` set (exception_codes_13 ex_ext) \<and>
   sensorBGL (ex_data 0x0300 (ex_alert False False)) = SENSOR_OK \<and>
   displayed_severity
     (blynk_upload ex_ext (ex_cfg 180 250) (ex_env Raises False 1300) 0 None
        (Some (ex_data 0x0300 (ex_alert False False)))) = Some SensorFault \<and>
   pin_writes VPIN_SENSOR
     (blynk_upload ex_ext (ex_cfg 180 250) (ex_env Raises False 1300) 0 None
        (Some (ex_data 0x0300 (ex_alert False False)))) = [PNone] \<and>
   pin_colors VPIN_STATUS
     (blynk_upload ex_ext (ex_cfg 180 250) (ex_env Raises False 1300) 0 None
        (Some (ex_data 0x0300 (ex_alert False False)))) = [BLYNK_RED] \<and>
   pin_writes VPIN_STATUS
     (blynk_upload ex_ext (ex_cfg 180 250) (ex_env Raises False 1300) 0 None
        (Some (ex_data 0x0300 (ex_alert False False)))) = [PStr ''12:05 - Sensor OK'']"
proof -
  have lost: "SENSOR_LOST ex_ext \<noteq> SENSOR_OK"
    by (simp add: ex_ext_def SENSOR_OK_def)
  have ok: "sensorBGL (ex_data 0x0300 (ex_alert False False)) = SENSOR_OK"
    by (simp add: ex_data_def SENSOR_OK_def)
  note inst = sensor_ok_is_in_exception_table
            [of ex_ext "ex_data 0x0300 (ex_alert False False)" "ex_cfg 180 250"
                "ex_env Raises False 1300" 0 None]
  have notin: "SENSOR_OK \<notin> fst ` set (exception_codes_13 ex_ext)"
    using inst lost by blast
  have shown:
    "displayed_severity
       (blynk_upload ex_ext (ex_cfg 180 250) (ex_env Raises False 1300) 0 None
          (Some (ex_data 0x0300 (ex_alert False False)))) = Some SensorFault"
    "pin_writes VPIN_SENSOR
       (blynk_upload ex_ext (ex_cfg 180 250) (ex_env Raises False 1300) 0 None
          (Some (ex_data 0x0300 (ex_alert False False)))) = [PNone]"
    "pin_colors VPIN_STATUS
       (blynk_upload ex_ext (ex_cfg 180 250) (ex_env Raises False 1300) 0 None
          (Some (ex_data 0x0300 (ex_alert False False)))) = [BLYNK_RED]"
    "pin_writes VPIN_STATUS
       (blynk_upload ex_ext (ex_cfg 180 250) (ex_env Raises False 1300) 0 None
          (Some (ex_data 0x0300 (ex_alert False False)))) =
       [PStr (now_HM (ex_env Raises False 1300) @ '' - '' @ SENSOR_OK_STR)]"
    using inst lost ok by blast+
  have str: "now_HM (ex_env Raises False 1300) @ '' - '' @ SENSOR_OK_STR = ''12:05 - Sensor OK''"
    by (simp add: ex_env_def SENSOR_OK_STR_def)
  show ?thesis
    using lost ok notin shown unfolding str by blast
qed

subsection \<open>C7: drift correction\<close>

text \<open>
  Claim C7. The correction adds the drift to the pump time; it adds the same drift to
  the sensor timestamp unless the reading is the code of the lost sensor, and then
  leaves the timestamp as it is, whatever the drift; no other field changes. It is a
  function of the snapshot alone. A cycle applies it once to the fetched snapshot:
  what goes to Nightscout, what the Blynk upload is computed from and what the next
  wake time is computed from is the snapshot corrected once. (A \<open>datetime\<close> is an
  unbounded integer here; the range of Python's \<open>datetime\<close> is not modelled.)
\<close>

theorem drift_correction_once:
  "pumpTime (drift_correct x d) = pumpTime d + pumpTimeDrift d \<and>
   (sensorBGL d \<noteq> SENSOR_LOST x \<longrightarrow>
      sensorBGLTimestamp (drift_correct x d) = sensorBGLTimestamp d + pumpTimeDrift d) \<and>
   (sensorBGL d = SENSOR_LOST x \<longrightarrow>
      sensorBGLTimestamp (drift_correct x d) = sensorBGLTimestamp d) \<and>
   (drift_correct x d)\<lparr>pumpTime := pumpTime d, sensorBGLTimestamp := sensorBGLTimestamp d\<rparr> = d \<and>
   (\<not> active s \<and> fst (fetch_loop (readLiveData env) 0 MAX_RETRIES_AT_FAILURE) = Some d \<longrightarrow>
      (nightscout_enabled cfg \<longrightarrow>
         nightscout_uploads (trace_of (upload_live_data x cfg env s)) =
           [Some (drift_correct x d)]) \<and>
      (blynk_enabled cfg \<and> blynk_fail_at env = None \<longrightarrow>
         (\<forall>p. pin_writes p (trace_of (upload_live_data x cfg env s)) =
               pin_writes p
                 (blynk_upload x cfg env (cycleCount s) (lastBolusTime_glob s)
                    (Some (drift_correct x d))))) \<and>
      (\<not> timer_raises env \<longrightarrow>
         timer_starts (trace_of (upload_live_data x cfg env s)) =
           [timer_delay (Some (drift_correct x d)) (now_resched env)]))"
  by (simp add: drift_correct_def cycle_nightscout cycle_blynk cycle_timer)

text \<open>
  With a drift of 2 seconds: the timestamp of the lost-sensor snapshot stays at second
  1000, that of the regular snapshot moves to second 1002, and the cycle hands the
  corrected regular snapshot to Nightscout.
\<close>

theorem drift_correction_once_witness:
  "sensorBGL ex_lost = SENSOR_LOST ex_ext \<and>
   sensorBGLTimestamp ex_lost = 1000000000 \<and> pumpTimeDrift ex_lost = 2000000 \<and>
   sensorBGLTimestamp (drift_correct ex_ext ex_lost) = 1000000000 \<and>
   sensorBGL ex_snapshot \<noteq> SENSOR_LOST ex_ext \<and>
   sensorBGLTimestamp ex_snapshot = 1000000000 \<and> pumpTimeDrift ex_snapshot = 2000000 \<and>
   sensorBGLTimestamp (drift_correct ex_ext ex_snapshot) = 1002000000 \<and>
   \<not> active (ex_state False) \<and>
   fst (fetch_loop (readLiveData (ex_env (Returns (Some ex_snapshot)) False 1200))
          0 MAX_RETRIES_AT_FAILURE) = Some ex_snapshot \<and>
   nightscout_enabled (ex_cfg 180 250) \<and>
   nightscout_uploads (trace_of (ex_cycle (Returns (Some ex_snapshot)) False 1200 False)) =
     [Some (drift_correct ex_ext ex_snapshot)]"
proof -
  have lost: "sensorBGL ex_lost = SENSOR_LOST ex_ext"
    by (simp add: ex_lost_def ex_data_def ex_ext_def)
  have regular: "sensorBGL ex_snapshot \<noteq> SENSOR_LOST ex_ext"
    by (simp add: ex_snapshot_def ex_data_def ex_ext_def)
  have fields: "sensorBGLTimestamp ex_lost = 1000000000" "pumpTimeDrift ex_lost = 2000000"
    "sensorBGLTimestamp ex_snapshot = 1000000000" "pumpTimeDrift ex_snapshot = 2000000"
    by (simp_all add: ex_lost_def ex_snapshot_def ex_data_def)
  note at_lost = drift_correction_once [of ex_ext ex_lost]
  note at_regular = drift_correction_once [of ex_ext ex_snapshot "ex_state False"
      "ex_env (Returns (Some ex_snapshot)) False 1200" "ex_cfg 180 250", folded ex_cycle_def]
  have a: "sensorBGLTimestamp (drift_correct ex_ext ex_lost) = 1000000000"
    using at_lost lost fields by simp
  have b: "sensorBGLTimestamp (drift_correct ex_ext ex_snapshot) = 1002000000"
    using at_regular regular fields by simp
  have c: "nightscout_uploads (trace_of (ex_cycle (Returns (Some ex_snapshot)) False 1200 False)) =
     [Some (drift_correct ex_ext ex_snapshot)]"
    using at_regular ex_idle ex_fetch [of "Some ex_snapshot" False 1200] ex_uploaders(2) [of 180 250]
    by blast
  show ?thesis
    using lost regular fields a b c ex_idle ex_fetch ex_uploaders(2) by blast
qed

subsection \<open>C2: the delay of the next cycle\<close>

text \<open>
  Claim C2, amended. On a successful fetch the next wake time is the corrected
  \<open>sensorBGLTimestamp\<close> plus \<open>UPDATE_INTERVAL\<close> (300 s), and \<open>tmoSeconds\<close> is
  the whole seconds from now to the next wake time; if \<open>tmoSeconds\<close> is negative
  it is replaced by \<open>RETRY_INTERVAL\<close> (180 s); when every fetch fails
  \<open>tmoSeconds\<close> is \<open>RETRY_INTERVAL\<close>. The delay passed to the timer is
  \<open>tmoSeconds + 10\<close> in every case: the test for a negative value comes before the
  10 seconds are added, and the fallback delay is 190 seconds.
\<close>

theorem reschedule_delay:
  "\<not> active s \<and> \<not> timer_raises env \<longrightarrow>
     (fst (fetch_loop (readLiveData env) 0 MAX_RETRIES_AT_FAILURE) = Some d \<longrightarrow>
        timer_starts (trace_of (upload_live_data x cfg env s)) =
          [(let nextWake = sensorBGLTimestamp (drift_correct x d) + UPDATE_INTERVAL * 1000000;
                tmo = trunc_seconds (nextWake - now_resched env)
            in if tmo < 0 then RETRY_INTERVAL + 10 else tmo + 10)]) \<and>
     (readLiveData env 0 = Raises \<and> readLiveData env 1 = Raises \<and>
      readLiveData env 2 = Raises \<longrightarrow>
        timer_starts (trace_of (upload_live_data x cfg env s)) = [RETRY_INTERVAL + 10])"
  by (simp add: cycle_timer timer_delay_def Let_def fetch_all_raise)

text \<open>
  Corrected timestamp at second 1002, so the next wake time is second 1302: at second
  1200 the delay is 112, at second 1307 it is 190, and after three failed fetches 190.
\<close>

theorem reschedule_delay_witness:
  "\<not> active (ex_state False) \<and>
   \<not> timer_raises (ex_env (Returns (Some ex_snapshot)) False 1200) \<and>
   fst (fetch_loop (readLiveData (ex_env (Returns (Some ex_snapshot)) False 1200))
          0 MAX_RETRIES_AT_FAILURE) = Some ex_snapshot \<and>
   timer_starts (trace_of (ex_cycle (Returns (Some ex_snapshot)) False 1200 False)) = [112] \<and>
   timer_starts (trace_of (ex_cycle (Returns (Some ex_snapshot)) False 1307 False)) = [190] \<and>
   readLiveData (ex_env Raises False 1300) 0 = Raises \<and>
   readLiveData (ex_env Raises False 1300) 1 = Raises \<and>
   readLiveData (ex_env Raises False 1300) 2 = Raises \<and>
   timer_starts (trace_of (ex_cycle Raises False 1300 False)) = [190]"
proof -
  note on_time = reschedule_delay [of "ex_state False" "ex_env (Returns (Some ex_snapshot)) False 1200"
      ex_snapshot ex_ext "ex_cfg 180 250", folded ex_cycle_def]
  note late = reschedule_delay [of "ex_state False" "ex_env (Returns (Some ex_snapshot)) False 1307"
      ex_snapshot ex_ext "ex_cfg 180 250", folded ex_cycle_def]
  note failed = reschedule_delay [of "ex_state False" "ex_env Raises False 1300" ex_snapshot
      ex_ext "ex_cfg 180 250", folded ex_cycle_def]
  have a: "timer_starts (trace_of (ex_cycle (Returns (Some ex_snapshot)) False 1200 False)) = [112]"
    using on_time
    by (simp add: ex_idle ex_timer ex_fetch ex_clock ex_corrected
        trunc_seconds_def UPDATE_INTERVAL_def RETRY_INTERVAL_def)
  have b: "timer_starts (trace_of (ex_cycle (Returns (Some ex_snapshot)) False 1307 False)) = [190]"
    using late
    by (simp add: ex_idle ex_timer ex_fetch ex_clock ex_corrected
        trunc_seconds_def UPDATE_INTERVAL_def RETRY_INTERVAL_def)
  have c: "timer_starts (trace_of (ex_cycle Raises False 1300 False)) = [190]"
    using failed by (simp add: ex_idle ex_timer ex_fetch_fails RETRY_INTERVAL_def)
  show ?thesis
    using a b c ex_idle ex_fetch ex_fetch_fails by (simp add: ex_timer)
qed

text \<open>
  The claim as stated fails. At second 1307 the next wake time is 5 seconds in the past:
  \<open>(nextWake - now) + 10\<close> is 5, not negative, and the stated rule gives a delay of
  5 seconds; the cycle arms the timer with 190. After a total fetch failure the stated
  rule gives 180; the cycle arms the timer with 190.
\<close>

theorem reschedule_delay_spec_counterexample:
  "timer_starts (trace_of (ex_cycle (Returns (Some ex_snapshot)) False 1307 False)) = [190] \<and>
   delay_spec (Some (drift_correct ex_ext ex_snapshot)) (1307 * 1000000) = 5 \<and>
   timer_starts (trace_of (ex_cycle Raises False 1300 False)) = [190] \<and>
   delay_spec None (1300 * 1000000) = 180"
  by (simp add: ex_cycle_def cycle_timer ex_idle ex_timer ex_fetch ex_fetch_none
      ex_clock ex_corrected timer_delay_def delay_spec_def
      trunc_seconds_def UPDATE_INTERVAL_def RETRY_INTERVAL_def Let_def)

subsection \<open>C4: the guard and the next invocation\<close>

text \<open>
  Claim C4, amended. A call while a cycle is in progress returns at once: no effect, the
  state unchanged. Otherwise the write of the guard is the first effect of the cycle,
  before any I/O; and on every path on which no exception leaves the function, which
  includes every failure of the fetch, of the Blynk upload and of the Nightscout upload,
  the guard is cleared as the last effect, the cycle counter is incremented and
  exactly one timer is armed.
\<close>

theorem cycle_guard_and_rearm:
  "(active s \<longrightarrow> upload_live_data x cfg env s = (None, s, [])) \<and>
   (\<not> active s \<longrightarrow>
      trace_of (upload_live_data x cfg env s) \<noteq> [] \<and>
      hd (trace_of (upload_live_data x cfg env s)) = Guard True) \<and>
   (\<not> active s \<and> \<not> timer_raises env \<longrightarrow>
      outcome_of (upload_live_data x cfg env s) = None \<and>
      \<not> active (state_of (upload_live_data x cfg env s)) \<and>
      guard_writes (trace_of (upload_live_data x cfg env s)) = [True, False] \<and>
      last (trace_of (upload_live_data x cfg env s)) = Guard False \<and>
      length (timer_starts (trace_of (upload_live_data x cfg env s))) = 1 \<and>
      cycleCount (state_of (upload_live_data x cfg env s)) = cycleCount s + 1)"
  by (simp add: cycle_reentrant cycle_guard cycle_last cycle_timer)

text \<open>
  A call in a busy state is without effect; a cycle whose three fetches fail sets and
  clears the guard, arms one timer and counts the cycle.
\<close>

theorem cycle_guard_and_rearm_witness:
  "active (ex_state True) \<and>
   ex_cycle Raises False 1300 True = (None, ex_state True, []) \<and>
   \<not> active (ex_state False) \<and> \<not> timer_raises (ex_env Raises False 1300) \<and>
   hd (trace_of (ex_cycle Raises False 1300 False)) = Guard True \<and>
   outcome_of (ex_cycle Raises False 1300 False) = None \<and>
   \<not> active (state_of (ex_cycle Raises False 1300 False)) \<and>
   guard_writes (trace_of (ex_cycle Raises False 1300 False)) = [True, False] \<and>
   length (timer_starts (trace_of (ex_cycle Raises False 1300 False))) = 1 \<and>
   cycleCount (state_of (ex_cycle Raises False 1300 False)) = 1"
proof -
  note busy = cycle_guard_and_rearm [of "ex_state True" ex_ext "ex_cfg 180 250" "ex_env Raises False 1300",
      folded ex_cycle_def]
  note idle = cycle_guard_and_rearm [of "ex_state False" ex_ext "ex_cfg 180 250" "ex_env Raises False 1300",
      folded ex_cycle_def]
  have t: "\<not> timer_raises (ex_env Raises False 1300)"
    by (simp add: ex_timer)
  have c0: "cycleCount (ex_state False) + 1 = 1"
    by (simp add: ex_state_def)
  have a: "ex_cycle Raises False 1300 True = (None, ex_state True, [])"
    using busy ex_busy by blast
  show ?thesis
    using a idle ex_idle ex_busy t c0 by simp
qed

text \<open>
  The claim as stated fails on an exception that the function does not catch. When the
  timer cannot be started (\<open>threading.Timer.start\<close> raises \<open>RuntimeError\<close>),
  the exception leaves the function at line 390: the guard stays set and no invocation
  is armed.
\<close>

theorem cycle_unhandled_failure_counterexample:
  "outcome_of (ex_cycle (Returns (Some ex_snapshot)) True 1200 False) = Some RuntimeError \<and>
   active (state_of (ex_cycle (Returns (Some ex_snapshot)) True 1200 False)) \<and>
   guard_writes (trace_of (ex_cycle (Returns (Some ex_snapshot)) True 1200 False)) = [True] \<and>
   timer_starts (trace_of (ex_cycle (Returns (Some ex_snapshot)) True 1200 False)) = []"
  by (simp add: ex_cycle_def cycle_guard cycle_timer ex_idle ex_timer)

subsection \<open>C5: a high bound configured as zero\<close>

text \<open>
  Claim C5. A high or pre-high bound configured as zero is disabled: for every reading
  the comparison \<open>reading > bound\<close> never fires. The source says so itself
  (line 184: "Disable BGL parameters if not specified in config"), and then sets the
  bound to 1000 (lines 185-188). Up to the reading 1000 the comparison is false
  (\<open>zero_high_bound_up_to_1000\<close>); above it the comparison fires. With both high
  bounds configured as zero, the low bounds 70 and 80 and no alert flag, the reading
  1001, which is no key of the exception table, is above the bound 1000 and the gauge
  shows an alert; with the high bound at 2000 it shows a pre-alert, on account of the
  pre-high bound, and with both at 2000 it is normal.
\<close>

theorem zero_high_bound_fires_at_1001:
  "read_config (ex_config ''0'' ''0'') = Inr (ex_cfg 1000 1000) \<and>
   bgl_high_val (ex_cfg 1000 1000) < sensorBGL (ex_data 1001 (ex_alert False False)) \<and>
   displayed_severity
     (blynk_upload ex_ext (ex_cfg 1000 1000) (ex_env Raises False 1300) 0 None
        (Some (ex_data 1001 (ex_alert False False)))) = Some Alert \<and>
   displayed_severity
     (blynk_upload ex_ext (ex_cfg 1000 2000) (ex_env Raises False 1300) 0 None
        (Some (ex_data 1001 (ex_alert False False)))) = Some PreAlert \<and>
   displayed_severity
     (blynk_upload ex_ext (ex_cfg 2000 2000) (ex_env Raises False 1300) 0 None
        (Some (ex_data 1001 (ex_alert False False)))) = Some Normal"
proof -
  have n: "sensor_exception_codes ex_ext (sensorBGL (ex_data 1001 (ex_alert False False))) = None"
    by (simp add: sensor_exception_codes_def ex_ext_def ex_data_def sensor_code_defs)
  have sev: "displayed_severity
     (blynk_upload ex_ext cfg (ex_env Raises False 1300) 0 None
        (Some (ex_data 1001 (ex_alert False False)))) =
     Some (severity_spec cfg (ex_data 1001 (ex_alert False False)))" for cfg
    by (simp add: displayed_severity_def blynk_upload_regular [OF n] gauge_color_spec)
  have s1: "displayed_severity
     (blynk_upload ex_ext (ex_cfg 1000 1000) (ex_env Raises False 1300) 0 None
        (Some (ex_data 1001 (ex_alert False False)))) = Some Alert"
    unfolding sev by (simp add: severity_spec_def ex_cfg_def ex_data_def ex_alert_def)
  have s2: "displayed_severity
     (blynk_upload ex_ext (ex_cfg 1000 2000) (ex_env Raises False 1300) 0 None
        (Some (ex_data 1001 (ex_alert False False)))) = Some PreAlert"
    unfolding sev by (simp add: severity_spec_def ex_cfg_def ex_data_def ex_alert_def)
  have s3: "displayed_severity
     (blynk_upload ex_ext (ex_cfg 2000 2000) (ex_env Raises False 1300) 0 None
        (Some (ex_data 1001 (ex_alert False False)))) = Some Normal"
    unfolding sev by (simp add: severity_spec_def ex_cfg_def ex_data_def ex_alert_def)
  have lt: "bgl_high_val (ex_cfg 1000 1000) < sensorBGL (ex_data 1001 (ex_alert False False))"
    by (simp add: ex_cfg_def ex_data_def)
  show ?thesis
    using ex_read_config_zero lt s1 s2 s3 by blast
qed

subsection \<open>C10: a configuration value that is no number\<close>

text \<open>
  Claim C10. For every string that \<open>int\<close> does not parse, \<open>to_int\<close> returns 0.
  So when all options are present and the value of \<open>bgl_high\<close> or
  \<open>bgl_pre_high\<close> is malformed, \<open>read_config\<close> succeeds, and it returns what it
  returns for the value 0: the bound is the disabled one, 1000.
\<close>

theorem malformed_number_reads_as_zero:
  "(py_int s = None \<longrightarrow> to_int s = 0) \<and>
   (all_options_present config \<and> config ''bgl'' ''bgl_high'' = Some raw \<and>
    py_int (unquote raw) = None \<longrightarrow>
      (\<exists>cfg. read_config config = Inr cfg \<and> bgl_high_val cfg = 1000) \<and>
      read_config config = read_config (set_option config ''bgl'' ''bgl_high'' ''0'')) \<and>
   (all_options_present config \<and> config ''bgl'' ''bgl_pre_high'' = Some raw \<and>
    py_int (unquote raw) = None \<longrightarrow>
      (\<exists>cfg. read_config config = Inr cfg \<and> bgl_pre_high_val cfg = 1000) \<and>
      read_config config = read_config (set_option config ''bgl'' ''bgl_pre_high'' ''0''))"
  by (auto simp: read_config_def all_options_present_def set_option_def to_int_def
      unquote_0 py_int_0)

text \<open>
  The high bound written as "abc": no number, read as 0 by \<open>to_int\<close>, and the
  configuration is the one with the pre-high bound 180 and the high bound 1000.
\<close>

theorem malformed_number_reads_as_zero_witness:
  "py_int ''abc'' = None \<and> to_int ''abc'' = 0 \<and>
   all_options_present (ex_config ''180'' ''abc'') \<and>
   ex_config ''180'' ''abc'' ''bgl'' ''bgl_high'' = Some ''abc'' \<and>
   py_int (unquote ''abc'') = None \<and>
   read_config (ex_config ''180'' ''abc'') = Inr (ex_cfg 180 1000) \<and>
   bgl_high_val (ex_cfg 180 1000) = 1000 \<and>
   read_config (set_option (ex_config ''180'' ''abc'') ''bgl'' ''bgl_high'' ''0'') =
     Inr (ex_cfg 180 1000)"
proof -
  have p: "py_int ''abc'' = None"
    by (simp add: py_int_def py_strip_def py_isspace_def digit_of_def)
  have u: "unquote ''abc'' = ''abc''"
    by (simp add: unquote_def strip_chr_def)
  have present: "all_options_present (ex_config ''180'' ''abc'')"
    by (simp add: all_options_present_def ex_config_def)
  have raw: "ex_config ''180'' ''abc'' ''bgl'' ''bgl_high'' = Some ''abc''"
    by (simp add: ex_config_def)
  note inst = malformed_number_reads_as_zero [of "''abc''" "ex_config ''180'' ''abc''" "''abc''"]
  have z: "to_int ''abc'' = 0"
    using inst p by blast
  have same: "read_config (ex_config ''180'' ''abc'') =
      read_config (set_option (ex_config ''180'' ''abc'') ''bgl'' ''bgl_high'' ''0'')"
    using inst present raw p u by simp
  show ?thesis
    using p z present raw u same ex_read_config_malformed by (simp add: ex_cfg_def)
qed

end
